theory Spec2Isabelle
  imports Complex_Main "HOL-Library.AList"
begin

section \<open>Values of the host language\<close>

text \<open>
  The engine is JavaScript: the generator's reply is parsed by \<open>JSON.parse\<close> into a
  dynamically typed value which the validator repairs in place and the engine then reads
  field by field. A value is modelled by \<open>jsval\<close>. Numbers are exact rationals (rounding of
  IEEE doubles is not modelled); the not-a-number value, which arithmetic on a non-numeric
  operand produces, is the separate constructor \<open>NaN\<close>. A string is a sequence of bytes, a
  character outside ASCII being its UTF-8 bytes: the code never indexes a string or takes
  its length, and the operations that depend on Unicode tables (white space, lower case)
  are taken from the platform, see below. An array carries, next to its elements, the named
  properties that an assignment such as \<open>parsed.story = raw\<close> adds to it.
\<close>

datatype jsval =
    Undefined
  | Null
  | Bool bool
  | Num rat
  | NaN
  | Str string
  | Arr "jsval list" "(string \<times> jsval) list"
  | Obj "(string \<times> jsval) list"

datatype error =
    TypeError       \<comment> \<open>a property of \<open>null\<close>/\<open>undefined\<close> is read, or a missing method is called\<close>
  | ProviderError   \<comment> \<open>\<open>sendPrompt\<close> throws: network, HTTP status, missing credential\<close>
  | Hang            \<comment> \<open>a loop of the engine does not terminate\<close>
  | Unmodelled      \<comment> \<open>arithmetic on a non-numeric operand: the code goes on, the model stops\<close>


text \<open>Truthiness, as \<open>if (v)\<close>, \<open>!v\<close>, \<open>v || d\<close> and \<open>v && w\<close> test it.\<close>

fun truthy :: "jsval \<Rightarrow> bool" where
  "truthy Undefined = False"
| "truthy Null = False"
| "truthy (Bool b) = b"
| "truthy (Num r) = (r \<noteq> 0)"
| "truthy NaN = False"
| "truthy (Str s) = (s \<noteq> [])"
| "truthy (Arr es ps) = True"
| "truthy (Obj ps) = True"

definition js_or :: "jsval \<Rightarrow> jsval \<Rightarrow> jsval" where
  "js_or v d = (if truthy v then v else d)"

definition js_and :: "jsval \<Rightarrow> jsval \<Rightarrow> jsval" where
  "js_and v w = (if truthy v then w else v)"

fun nullish :: "jsval \<Rightarrow> bool" where
  "nullish Undefined = True"
| "nullish Null = True"
| "nullish v = False"

text \<open>\<open>typeof v === 'string'\<close> and \<open>typeof v === 'number'\<close> (not-a-number is a number).\<close>

fun is_string :: "jsval \<Rightarrow> bool" where
  "is_string (Str s) = True"
| "is_string v = False"

fun is_number :: "jsval \<Rightarrow> bool" where
  "is_number (Num r) = True"
| "is_number NaN = True"
| "is_number v = False"

text \<open>
  Reading and writing a property of a value that is not \<open>null\<close> or \<open>undefined\<close> (on those
  both raise a TypeError, which the callers below test for before they read). The engine
  only uses the field names of the response schema, none of which is a built-in property of
  strings, numbers or arrays: a read on a primitive yields \<open>undefined\<close>. The scripts carry no
  strict-mode directive, so a write to a primitive is silently dropped.
\<close>

definition lookup :: "(string \<times> jsval) list \<Rightarrow> string \<Rightarrow> jsval" where
  "lookup ps k = (case map_of ps k of None \<Rightarrow> Undefined | Some v \<Rightarrow> v)"

fun rd :: "jsval \<Rightarrow> string \<Rightarrow> jsval" where
  "rd (Obj ps) k = lookup ps k"
| "rd (Arr es ps) k = lookup ps k"
| "rd v k = Undefined"

fun wr :: "jsval \<Rightarrow> string \<Rightarrow> jsval \<Rightarrow> jsval" where
  "wr (Obj ps) k v = Obj (AList.update k v ps)"
| "wr (Arr es ps) k v = Arr es (AList.update k v ps)"
| "wr p k v = p"

text \<open>
  Strict equality \<open>===\<close> as \<open>indexOf\<close> uses it: two objects or arrays are equal only when
  they are the same object, which two values coming from different places of parsed replies
  never are; not-a-number equals nothing.
\<close>

fun strict_eq :: "jsval \<Rightarrow> jsval \<Rightarrow> bool" where
  "strict_eq (Obj ps) w = False"
| "strict_eq (Arr es ps) w = False"
| "strict_eq NaN w = False"
| "strict_eq v w = (v = w)"

section \<open>The platform\<close>

text \<open>
  Built-in functions of the JavaScript runtime that the code calls. They are parameters of
  the model: every theorem holds whatever they compute.
  \<^item> \<open>JSON_parse\<close>: \<open>JSON.parse\<close>, \<open>None\<close> when it throws a SyntaxError;
  \<^item> \<open>JSON_stringify\<close>: \<open>JSON.stringify\<close>;
  \<^item> \<open>ToNumber\<close>: the numeric conversion of a string, an array or an object, \<open>None\<close> for NaN;
  \<^item> \<open>ToString\<close>: the string conversion that a template literal applies to a value
    that is not a string;
  \<^item> \<open>trimStart\<close>, \<open>trimEnd\<close>: removal of leading and of trailing white space (the
    characters that \<open>\s\<close> matches in a regular expression and that \<open>trim\<close> removes);
  \<^item> \<open>toLowerCase\<close>: \<open>String.prototype.toLowerCase\<close>.
\<close>

record platform =
  JSON_parse :: "string \<Rightarrow> jsval option"
  JSON_stringify :: "jsval \<Rightarrow> string"
  ToNumber :: "jsval \<Rightarrow> rat option"
  ToString :: "jsval \<Rightarrow> string"
  trimStart :: "string \<Rightarrow> string"
  trimEnd :: "string \<Rightarrow> string"
  toLowerCase :: "string \<Rightarrow> string"

text \<open>The string conversion of a template literal: a string converts to itself.\<close>

definition toStr :: "platform \<Rightarrow> jsval \<Rightarrow> string" where
  "toStr P v = (case v of Str s \<Rightarrow> s | _ \<Rightarrow> ToString P v)"

definition trim :: "platform \<Rightarrow> string \<Rightarrow> string" where
  "trim P s = trimEnd P (trimStart P s)"

text \<open>Numeric conversion of any value, as \<open>Math.max\<close> and \<open>Math.min\<close> apply it to their
  arguments; \<open>None\<close> is NaN, which both functions propagate.\<close>

fun toNumber :: "platform \<Rightarrow> jsval \<Rightarrow> rat option" where
  "toNumber P Undefined = None"
| "toNumber P Null = Some 0"
| "toNumber P (Bool b) = Some (if b then 1 else 0)"
| "toNumber P (Num r) = Some r"
| "toNumber P NaN = None"
| "toNumber P v = ToNumber P v"

definition Math_max :: "rat option \<Rightarrow> rat option \<Rightarrow> rat option" where
  "Math_max a b = (case a of None \<Rightarrow> None
                   | Some x \<Rightarrow> (case b of None \<Rightarrow> None | Some y \<Rightarrow> Some (max x y)))"

definition Math_min :: "rat option \<Rightarrow> rat option \<Rightarrow> rat option" where
  "Math_min a b = (case a of None \<Rightarrow> None
                   | Some x \<Rightarrow> (case b of None \<Rightarrow> None | Some y \<Rightarrow> Some (min x y)))"

definition number :: "rat option \<Rightarrow> jsval" where
  "number a = (case a of None \<Rightarrow> NaN | Some x \<Rightarrow> Num x)"

section \<open>Response validation (api.js)\<close>

text \<open>
  The three validators start alike:
  \<^verbatim>\<open>
  let cleaned = raw.trim();
  if (cleaned.startsWith('```')) {
    cleaned = cleaned.replace(/^```(?:json)?\s*/, '').replace(/\s*```$/, '');
  }\<close>
  The first pattern is applied to a text that starts with the fence, so it matches at the
  start: the fence, the word \<open>json\<close> when it follows, and the white space after it. The
  second pattern matches only a text that ends with the fence, and its leftmost match starts
  at the white space before that fence.
\<close>

definition dropOpeningFence :: "platform \<Rightarrow> string \<Rightarrow> string" where
  "dropOpeningFence P s =
     (let t = drop 3 s;
          u = (if take 4 t = ''json'' then drop 4 t else t)
      in trimStart P u)"

definition dropClosingFence :: "platform \<Rightarrow> string \<Rightarrow> string" where
  "dropClosingFence P s =
     (if 3 \<le> length s \<and> drop (length s - 3) s = ''```''
      then trimEnd P (take (length s - 3) s)
      else s)"

definition stripFences :: "platform \<Rightarrow> string \<Rightarrow> string" where
  "stripFences P raw =
     (let cleaned = trim P raw
      in if take 3 cleaned = ''```''
         then dropClosingFence P (dropOpeningFence P cleaned)
         else cleaned)"

record validated =
  valid :: bool
  data :: jsval

record validation = validated +
  errors :: "string list"

definition validTypes :: "string list" where
  "validTypes = [''stat_check'', ''combat'', ''item_found'', ''npc_encounter'', ''story_end'']"

definition validStats :: "string list" where
  "validStats = [''STR'', ''DEX'', ''INT'', ''CHA'', ''WIL'']"

text \<open>
  \<^verbatim>\<open>
  if (!parsed.story || typeof parsed.story !== 'string') {
    errors.push('Missing or invalid "story" field');
    parsed.story = raw;
  }\<close>
\<close>

definition repairStory :: "string \<Rightarrow> jsval \<times> string list \<Rightarrow> jsval \<times> string list" where
  "repairStory raw = (\<lambda>(parsed, errors).
     if \<not> truthy (rd parsed ''story'') \<or> \<not> is_string (rd parsed ''story'')
     then (wr parsed ''story'' (Str raw), errors @ [''Missing or invalid \"story\" field''])
     else (parsed, errors))"

text \<open>
  The three repairs of a stat_check or combat event, on the event object:
  \<^verbatim>\<open>
  if (!validStats.includes(parsed.event.stat)) {
    errors.push(`Invalid stat: ${parsed.event.stat}`);
    parsed.event.stat = 'STR'; // fallback
  }
  if (typeof parsed.event.difficulty !== 'number' || parsed.event.difficulty < 1
      || parsed.event.difficulty > 20) {
    errors.push(`Invalid difficulty: ${parsed.event.difficulty}`);
    parsed.event.difficulty = Math.min(20, Math.max(1, parsed.event.difficulty || 12));
  }
  if (!['basic', 'important'].includes(parsed.event.severity)) {
    parsed.event.severity = 'basic';
  }\<close>
\<close>

definition repairStat :: "platform \<Rightarrow> jsval \<times> string list \<Rightarrow> jsval \<times> string list" where
  "repairStat P = (\<lambda>(event, errors).
     if rd event ''stat'' \<notin> set (map Str validStats)
     then (wr event ''stat'' (Str ''STR''),
           errors @ [''Invalid stat: '' @ toStr P (rd event ''stat'')])
     else (event, errors))"

fun out_of_range :: "jsval \<Rightarrow> bool" where
  "out_of_range (Num d) = (d < 1 \<or> 20 < d)"
| "out_of_range NaN = False"
| "out_of_range v = True"

definition repairDifficulty :: "platform \<Rightarrow> jsval \<times> string list \<Rightarrow> jsval \<times> string list" where
  "repairDifficulty P = (\<lambda>(event, errors).
     if \<not> is_number (rd event ''difficulty'') \<or> out_of_range (rd event ''difficulty'')
     then (wr event ''difficulty''
             (number (Math_min (Some 20)
                       (Math_max (Some 1)
                          (toNumber P (js_or (rd event ''difficulty'') (Num 12)))))),
           errors @ [''Invalid difficulty: '' @ toStr P (rd event ''difficulty'')])
     else (event, errors))"

definition repairSeverity :: "jsval \<Rightarrow> jsval" where
  "repairSeverity event =
     (if rd event ''severity'' \<notin> {Str ''basic'', Str ''important''}
      then wr event ''severity'' (Str ''basic'')
      else event)"

text \<open>
  \<^verbatim>\<open>
  if (parsed.event) {
    if (!validTypes.includes(parsed.event.type)) {
      errors.push(`Invalid event type: ${parsed.event.type}`);
      parsed.event = null;
    } else if (parsed.event.type === 'stat_check' || parsed.event.type === 'combat') {
      ... the three repairs ...
    }
  }\<close>
  The repairs change the event object in place; in the model the repaired event is written
  back into \<open>parsed\<close>.
\<close>

definition repairEvent :: "platform \<Rightarrow> jsval \<times> string list \<Rightarrow> jsval \<times> string list" where
  "repairEvent P = (\<lambda>(parsed, errors).
     let event = rd parsed ''event'' in
     if truthy event then
       if rd event ''type'' \<notin> set (map Str validTypes)
       then (wr parsed ''event'' Null,
             errors @ [''Invalid event type: '' @ toStr P (rd event ''type'')])
       else if rd event ''type'' = Str ''stat_check'' \<or> rd event ''type'' = Str ''combat''
       then (let (e1, errors1) = repairStat P (event, errors);
                 (e2, errors2) = repairDifficulty P (e1, errors1)
             in (wr parsed ''event'' (repairSeverity e2), errors2))
       else (parsed, errors)
     else (parsed, errors))"

text \<open>\<^verbatim>\<open>if (parsed.hp_change === undefined) parsed.hp_change = 0;\<close> and its two siblings.\<close>

definition defaultField :: "string \<Rightarrow> jsval \<Rightarrow> jsval \<Rightarrow> jsval" where
  "defaultField k d parsed = (if rd parsed k = Undefined then wr parsed k d else parsed)"

definition applyDefaults :: "jsval \<Rightarrow> jsval" where
  "applyDefaults parsed =
     defaultField ''game_end'' (Bool False)
       (defaultField ''xp_gained'' (Num 0)
          (defaultField ''hp_change'' (Num 0) parsed))"

text \<open>
  \<open>validateGameResponse\<close>. The parse is guarded by \<open>try\<close>; the field checks after it are
  not, so the read of \<open>parsed.story\<close> raises when the text parses to \<open>null\<close>.
  \<^verbatim>\<open>
  try { parsed = JSON.parse(cleaned); }
  catch (e) {
    return { valid: false, data: { story: raw, event: null }, errors: ['JSON parse failed'] };
  }
  const errors = [];
  ...
  return { valid: errors.length === 0, data: parsed, errors };\<close>
\<close>

definition validateGameResponse :: "platform \<Rightarrow> string \<Rightarrow> error + validation" where
  "validateGameResponse P raw =
     (case JSON_parse P (stripFences P raw) of
        None \<Rightarrow> Inr \<lparr>valid = False,
                      data = Obj [(''story'', Str raw), (''event'', Null)],
                      errors = [''JSON parse failed'']\<rparr>
      | Some parsed \<Rightarrow>
          if nullish parsed then Inl TypeError
          else (let (p2, errors2) = repairEvent P (repairStory raw (parsed, []))
                in Inr \<lparr>valid = (errors2 = []), data = applyDefaults p2,
                        errors = errors2\<rparr>))"

text \<open>
  \<open>validateDiceOutcome\<close>: here the whole body is inside \<open>try\<close>, so the TypeError of a reply
  that parses to \<open>null\<close> is caught like a syntax error.
  \<^verbatim>\<open>
  try {
    const parsed = JSON.parse(cleaned);
    if (!parsed.story || typeof parsed.story !== 'string') { parsed.story = cleaned; }
    if (parsed.game_end === undefined) parsed.game_end = false;
    return { valid: true, data: parsed };
  } catch (e) {
    return { valid: false, data: { story: raw, game_end: false } };
  }\<close>
\<close>

definition validateDiceOutcome :: "platform \<Rightarrow> string \<Rightarrow> validated" where
  "validateDiceOutcome P raw =
     (let cleaned = stripFences P raw;
          failed = \<lparr>valid = False,
                    data = Obj [(''story'', Str raw), (''game_end'', Bool False)]\<rparr>
      in case JSON_parse P cleaned of
           None \<Rightarrow> failed
         | Some parsed \<Rightarrow>
             if nullish parsed then failed
             else (let p1 = (if \<not> truthy (rd parsed ''story'') \<or> \<not> is_string (rd parsed ''story'')
                             then wr parsed ''story'' (Str cleaned) else parsed)
                   in \<lparr>valid = True, data = defaultField ''game_end'' (Bool False) p1\<rparr>))"


section \<open>Character and progression (game-engine.js)\<close>

record specialAbility =
  ab_name :: string
  ab_stat :: string
  ab_description :: string

record stats =
  stat_STR :: rat
  stat_DEX :: rat
  stat_INT :: rat
  stat_CHA :: rat
  stat_WIL :: rat

record character =
  name :: string
  gender :: string
  level :: rat
  xp :: rat
  xpToNext :: rat
  hp :: rat
  maxHp :: rat
  stats :: stats
  specialAbility :: specialAbility

text \<open>
  \<^verbatim>\<open>char.hp = Math.max(0, Math.min(char.maxHp, char.hp + change));\<close>
\<close>

definition applyHP :: "rat \<Rightarrow> character \<Rightarrow> character" where
  "applyHP change c = c\<lparr>hp := max 0 (min (maxHp c) (hp c + change))\<rparr>"

text \<open>
  The leveling loop of \<open>applyXP\<close>:
  \<^verbatim>\<open>
  while (char.xp >= char.xpToNext) {
    char.xp -= char.xpToNext;
    char.level++;
    char.xpToNext = Math.floor(char.xpToNext * 1.5);
    char.maxHp += 10;
    char.hp = Math.min(char.hp + 10, char.maxHp);
  }\<close>
  Nothing in the code bounds the number of iterations, so the loop is a partial function:
  \<open>None\<close> is a loop that never leaves.
\<close>

partial_function (option) levelLoop :: "character \<Rightarrow> character option" where
  "levelLoop c =
     (if xpToNext c \<le> xp c
      then levelLoop (c\<lparr>xp := xp c - xpToNext c,
                        level := level c + 1,
                        xpToNext := of_int \<lfloor>xpToNext c * (3 / 2)\<rfloor>,
                        maxHp := maxHp c + 10,
                        hp := min (hp c + 10) (maxHp c + 10)\<rparr>)
      else Some c)"

declare levelLoop.simps [code]

definition applyXP :: "rat \<Rightarrow> character \<Rightarrow> character option" where
  "applyXP amount c = levelLoop (c\<lparr>xp := xp c + amount\<rparr>)"



section \<open>Dice (utils.js, dice.js, config.js)\<close>

definition SPECIAL_ABILITY_BONUS :: rat where "SPECIAL_ABILITY_BONUS = 5"
definition MAX_KEY_NPCS :: nat where "MAX_KEY_NPCS = 10"
definition RECENT_TURNS_TO_KEEP :: nat where "RECENT_TURNS_TO_KEEP = 5"
definition DEFAULT_AUTO_SAVE_INTERVAL :: int where "DEFAULT_AUTO_SAVE_INTERVAL = 5"

record diceResult =
  roll :: rat
  bonus :: rat
  total :: rat
  difficulty :: rat
  passed :: bool

text \<open>
  \<^verbatim>\<open>
  function resolveDiceCheck(roll, statValue, difficulty, useSpecialAbility = false) {
    const bonus = statValue + (useSpecialAbility ? SPECIAL_ABILITY_BONUS : 0);
    const total = roll + bonus;
    const passed = total >= difficulty;
    return { roll, bonus, total, difficulty, passed };
  }\<close>
  The last argument is whatever the caller passes; the conditional tests its truthiness.
\<close>

definition resolveDiceCheck :: "rat \<Rightarrow> rat \<Rightarrow> rat \<Rightarrow> jsval \<Rightarrow> diceResult" where
  "resolveDiceCheck r statValue d useSpecialAbility =
     (let b = statValue + (if truthy useSpecialAbility then SPECIAL_ABILITY_BONUS else 0);
          t = r + b
      in \<lparr>roll = r, bonus = b, total = t, difficulty = d, passed = (d \<le> t)\<rparr>)"

text \<open>\<open>char.stats[stat] || 0\<close> in \<open>Dice.roll\<close>: a key that is not one of the five stats reads
  \<open>undefined\<close>, which \<open>||\<close> turns into 0.\<close>

definition statValue :: "platform \<Rightarrow> stats \<Rightarrow> jsval \<Rightarrow> rat" where
  "statValue P st key =
     (let k = toStr P key
      in if k = ''STR'' then stat_STR st
         else if k = ''DEX'' then stat_DEX st
         else if k = ''INT'' then stat_INT st
         else if k = ''CHA'' then stat_CHA st
         else if k = ''WIL'' then stat_WIL st
         else 0)"

text \<open>\<open>Dice.roll(stat, difficulty, specialAbility)\<close>, with the d20 draw of \<open>Utils.rollD20\<close>
  given; the animation is left out.\<close>

definition Dice_roll :: "platform \<Rightarrow> character \<Rightarrow> rat \<Rightarrow> jsval \<Rightarrow> rat \<Rightarrow> jsval \<Rightarrow> diceResult" where
  "Dice_roll P c d20 stat d special =
     resolveDiceCheck d20 (statValue P (stats c) stat) d special"

text \<open>
  The test of \<open>waitForDiceRoll\<close>; \<open>&&\<close> yields the name itself when the stats agree:
  \<^verbatim>\<open>
  const useSpecial = char.specialAbility.stat === event.stat && char.specialAbility.name;\<close>
\<close>

definition useSpecial :: "character \<Rightarrow> jsval \<Rightarrow> jsval" where
  "useSpecial c event =
     js_and (Bool (Str (ab_stat (specialAbility c)) = rd event ''stat''))
            (Str (ab_name (specialAbility c)))"

text \<open>
  \<^verbatim>\<open>
  function calculateHPLoss(event) {
    if (event.severity !== 'important') return 0;
    return -(Math.floor(event.difficulty / 3) + 2);
  }
  function calculateXP(passed, difficulty) {
    if (passed) { return 5 + Math.floor(difficulty / 2) * 2; }
    return 5;
  }\<close>
  Both are called with an event whose difficulty is a number \<open>d\<close>.
\<close>

definition calculateHPLoss :: "jsval \<Rightarrow> rat \<Rightarrow> rat" where
  "calculateHPLoss event d =
     (if rd event ''severity'' \<noteq> Str ''important'' then 0
      else - (of_int \<lfloor>d / 3\<rfloor> + 2))"

definition calculateXP :: "bool \<Rightarrow> rat \<Rightarrow> rat" where
  "calculateXP pass d = (if pass then 5 + of_int \<lfloor>d / 2\<rfloor> * 2 else 5)"

section \<open>Character creation (app.js)\<close>

text \<open>
  The click handler of the begin button in \<open>bindCharacterCreationScreen\<close>. A form element
  that does not exist is \<open>None\<close>.
  \<^verbatim>\<open>
  const name = document.getElementById('char-name').value.trim();
  const gender = document.querySelector('.gender-btn.selected')?.dataset.gender || 'unspecified';
  const abilityName = document.getElementById('ability-name')?.value.trim() || 'None';
  const abilityStat = document.getElementById('ability-stat')?.value || 'STR';
  const abilityDesc = document.getElementById('ability-desc')?.value.trim() || '';
  const char = GameState.getCharacter();
  char.name = name;
  char.gender = gender;
  Object.assign(char.stats, stats);
  char.specialAbility = { name: abilityName, stat: abilityStat, description: abilityDesc };\<close>
\<close>

record characterForm =
  char_name :: string
  gender_selected :: "string option"
  ability_name :: "string option"
  ability_stat :: "string option"
  ability_desc :: "string option"
  stat_points :: stats

definition orElse :: "string option \<Rightarrow> string \<Rightarrow> string" where
  "orElse v d = (case v of None \<Rightarrow> d | Some x \<Rightarrow> (if x = [] then d else x))"

definition storeCharacter :: "platform \<Rightarrow> characterForm \<Rightarrow> character \<Rightarrow> character" where
  "storeCharacter P form c =
     c\<lparr>name := trim P (char_name form),
       gender := orElse (gender_selected form) ''unspecified'',
       stats := stat_points form,
       specialAbility :=
         \<lparr>ab_name = orElse (map_option (trim P) (ability_name form)) ''None'',
          ab_stat = orElse (ability_stat form) ''STR'',
          ab_description = orElse (map_option (trim P) (ability_desc form)) []\<rparr>\<rparr>"

section \<open>The session (state.js)\<close>

record turn =
  playerAction :: jsval
  aiResponse :: jsval
  diceOutcomeRequest :: jsval
  diceOutcomeResponse :: jsval
  timestamp :: string

record message =
  role :: string
  content :: jsval

text \<open>
  What a turn does outside the session record, in the order it happens: a narration shown
  to the player (\<open>UI.addStoryNarration\<close>), a change of HP or XP (\<open>applyHP\<close>, \<open>applyXP\<close>), a
  call of the generator (\<open>AI.sendPrompt\<close>) with its messages.
\<close>

datatype effect =
    Narration jsval
  | HPApplied rat
  | XPApplied rat
  | PromptCall "message list"

text \<open>
  \<open>state.game\<close>, with the two fields outside it that the engine reads (\<open>player.id\<close> and
  \<open>settings.autoSaveInterval\<close>) and the trace of effects. The world is an object that
  \<open>Object.assign\<close> extends with whatever the world generator returned: a map.
\<close>

record session =
  saveSlotId :: jsval
  slotNumber :: jsval
  status :: string
  world :: "string \<Rightarrow> jsval option"
  character :: character
  keyNpcs :: "jsval list"
  items :: "jsval list"
  storyHistory :: "turn list"
  recentTurns :: "turn list"
  storySummary :: string
  turnCount :: int
  lastSaveTurn :: int
  aiMessages :: "message list"
  playerId :: jsval
  autoSaveInterval :: int
  trace :: "effect list"



text \<open>\<open>xs.slice(-n)\<close>: the last \<open>n\<close> elements, all of them when there are fewer.\<close>

definition slice_last :: "nat \<Rightarrow> 'a list \<Rightarrow> 'a list" where
  "slice_last n xs = drop (length xs - n) xs"




text \<open>
  \<^verbatim>\<open>
  function addStoryEntry(entry) {
    const g = state.game;
    g.storyHistory.push(entry);
    g.recentTurns.push(entry);
    if (g.recentTurns.length > RECENT_TURNS_TO_KEEP) {
      g.recentTurns = g.recentTurns.slice(-RECENT_TURNS_TO_KEEP);
    }
  }\<close>
\<close>

definition addStoryEntry :: "turn \<Rightarrow> session \<Rightarrow> session" where
  "addStoryEntry entry g =
     (let pushed = recentTurns g @ [entry]
      in g\<lparr>storyHistory := storyHistory g @ [entry],
            recentTurns := (if RECENT_TURNS_TO_KEEP < length pushed
                            then slice_last RECENT_TURNS_TO_KEEP pushed else pushed)\<rparr>)"

definition incrementTurn :: "session \<Rightarrow> session" where
  "incrementTurn g = g\<lparr>turnCount := turnCount g + 1\<rparr>"

definition shouldAutoSave :: "session \<Rightarrow> bool" where
  "shouldAutoSave g \<longleftrightarrow> autoSaveInterval g \<le> turnCount g - lastSaveTurn g"

definition markSaved :: "session \<Rightarrow> session" where
  "markSaved g = g\<lparr>lastSaveTurn := turnCount g\<rparr>"



section \<open>Conversation context (api.js)\<close>

text \<open>
  The body of the loop over the retained turns, which \<open>buildGameMessages\<close> and
  \<open>buildDiceOutcomeMessages\<close> share word for word:
  \<^verbatim>\<open>
  if (turn.playerAction) messages.push({ role: 'user', content: turn.playerAction });
  if (turn.aiResponse)
    messages.push({ role: 'assistant', content: JSON.stringify(turn.aiResponse) });
  if (turn.diceOutcomeResponse) {
    messages.push({ role: 'user', content: turn.diceOutcomeRequest });
    messages.push({ role: 'assistant', content: JSON.stringify(turn.diceOutcomeResponse) });
  }\<close>
\<close>

definition pushTurn :: "platform \<Rightarrow> message list \<Rightarrow> turn \<Rightarrow> message list" where
  "pushTurn P messages t =
     (let m1 = (if truthy (playerAction t)
                then messages @ [\<lparr>role = ''user'', content = playerAction t\<rparr>]
                else messages);
          m2 = (if truthy (aiResponse t)
                then m1 @ [\<lparr>role = ''assistant'',
                            content = Str (JSON_stringify P (aiResponse t))\<rparr>]
                else m1)
      in if truthy (diceOutcomeResponse t)
         then (m2 @ [\<lparr>role = ''user'', content = diceOutcomeRequest t\<rparr>])
                  @ [\<lparr>role = ''assistant'',
                      content = Str (JSON_stringify P (diceOutcomeResponse t))\<rparr>]
         else m2)"

text \<open>
  \<^verbatim>\<open>
  if (game.storySummary) {
    messages.push({ role: 'system', content: `Previously: ${game.storySummary}` });
  }\<close>
\<close>

definition pushSummary :: "session \<Rightarrow> message list" where
  "pushSummary g =
     (if storySummary g \<noteq> []
      then [\<lparr>role = ''system'', content = Str (''Previously: '' @ storySummary g)\<rparr>]
      else [])"


text \<open>\<open>Utils.statFullName\<close>: \<open>STAT_NAMES[abbr] || abbr\<close>.\<close>

definition statFullName :: "platform \<Rightarrow> jsval \<Rightarrow> jsval" where
  "statFullName P abbr =
     (let k = toStr P abbr
      in if k = ''STR'' then Str ''Strength''
         else if k = ''DEX'' then Str ''Dexterity''
         else if k = ''INT'' then Str ''Intelligence''
         else if k = ''CHA'' then Str ''Charisma''
         else if k = ''WIL'' then Str ''Willpower''
         else abbr)"

definition dash :: string where
  "dash = [CHR 0xE2, CHR 0x80, CHR 0x94]"

text \<open>
  The text of the outcome request (the dash of the source is U+2014):
  \<^verbatim>\<open>
  let outcomeMsg = `[DICE RESULT] The player attempted a ${event.type} - ${
    Utils.statFullName(event.stat)} check (DC ${event.difficulty}, severity: ${
    event.severity}). They rolled ${diceResult.roll} + ${diceResult.bonus} bonus = ${
    diceResult.total}. Result: ${diceResult.passed ? 'SUCCESS' : 'FAILURE'}.`;
  if (diceResult.passed) {
    outcomeMsg += ` The player gained ${xpGained} XP.`;
    if (event.success_hint) outcomeMsg += ` Hint: ${event.success_hint}.`;
  } else {
    outcomeMsg += ` The player gained ${xpGained} XP for the attempt.`;
    if (hpLost < 0) outcomeMsg += ` They took ${Math.abs(hpLost)} HP damage (now ${
      GameState.getCharacter().hp} HP).`;
    if (event.fail_hint) outcomeMsg += ` Hint: ${event.fail_hint}.`;
  }
  outcomeMsg += ' Narrate the outcome. Do NOT include hp_change or xp_gained - the engine
    already handled those.';\<close>
\<close>

definition outcomeMsg :: "platform \<Rightarrow> jsval \<Rightarrow> diceResult \<Rightarrow> rat \<Rightarrow> rat \<Rightarrow> session \<Rightarrow> string" where
  "outcomeMsg P event r hpLost xpGained g =
     ''[DICE RESULT] The player attempted a '' @ toStr P (rd event ''type'')
       @ '' '' @ dash @ '' '' @ toStr P (statFullName P (rd event ''stat''))
       @ '' check (DC '' @ toStr P (rd event ''difficulty'')
       @ '', severity: '' @ toStr P (rd event ''severity'')
       @ ''). They rolled '' @ toStr P (Num (roll r))
       @ '' + '' @ toStr P (Num (bonus r))
       @ '' bonus = '' @ toStr P (Num (total r))
       @ ''. Result: '' @ (if passed r then ''SUCCESS'' else ''FAILURE'') @ ''.''
       @ (if passed r
          then '' The player gained '' @ toStr P (Num xpGained) @ '' XP.''
               @ (if truthy (rd event ''success_hint'')
                  then '' Hint: '' @ toStr P (rd event ''success_hint'') @ ''.'' else [])
          else '' The player gained '' @ toStr P (Num xpGained) @ '' XP for the attempt.''
               @ (if hpLost < 0
                  then '' They took '' @ toStr P (Num \<bar>hpLost\<bar>) @ '' HP damage (now ''
                       @ toStr P (Num (hp (character g))) @ '' HP).'' else [])
               @ (if truthy (rd event ''fail_hint'')
                  then '' Hint: '' @ toStr P (rd event ''fail_hint'') @ ''.'' else []))
       @ '' Narrate the outcome. Do NOT include hp_change or xp_gained '' @ dash
       @ '' the engine already handled those.''"

text \<open>
  \<^verbatim>\<open>
  function buildDiceOutcomeMessages(event, diceResult, hpLost, xpGained) {
    ... summary ...
    const recent = game.recentTurns.slice(-3);
    recent.forEach(turn => { ... });
    ... outcomeMsg ...
    messages.push({ role: 'user', content: outcomeMsg });
    return { messages, outcomeMsg };
  }\<close>
\<close>

definition buildDiceOutcomeMessages ::
  "platform \<Rightarrow> jsval \<Rightarrow> diceResult \<Rightarrow> rat \<Rightarrow> rat \<Rightarrow> session \<Rightarrow> message list \<times> string" where
  "buildDiceOutcomeMessages P event r hpLost xpGained g =
     (let msg = outcomeMsg P event r hpLost xpGained g
      in (foldl (pushTurn P) (pushSummary g) (slice_last 3 (recentTurns g))
            @ [\<lparr>role = ''user'', content = Str msg\<rparr>],
          msg))"

section \<open>The turn engine (game-engine.js)\<close>

text \<open>
  What the engine receives from outside during one turn: whether the two page elements it
  looks up exist, the d20 draw, the generator's answers to the primary and to the outcome
  call (\<open>Inl\<close> when \<open>sendPrompt\<close> throws), the clock, and whether writes to the save store
  succeed, with the slot a first write creates. A player who never presses the dice button
  suspends the turn for ever; \<open>diceBtn\<close> stands for a button that exists and is pressed.
\<close>

record env =
  storyContainer :: bool
  diceBtn :: bool
  d20 :: rat
  primaryReply :: "error + string"
  outcomeReply :: "error + string"
  now :: string
  dbWrites :: bool
  newSlot :: "jsval \<times> jsval"

text \<open>A step of the engine either completes or throws; what it did to the session before
  it threw stays done.\<close>

datatype 'a result = Ok 'a session | Fail error session

definition andThen :: "'a result \<Rightarrow> ('a \<Rightarrow> session \<Rightarrow> 'b result) \<Rightarrow> 'b result" where
  "andThen r f = (case r of Ok x g \<Rightarrow> f x g | Fail e g \<Rightarrow> Fail e g)"

text \<open>\<open>try { ... } catch (err) { ... }\<close>: an exception is caught; a loop that hangs, or a
  computation the model does not follow, is not an exception.\<close>

definition catchable :: "error \<Rightarrow> bool" where
  "catchable e \<longleftrightarrow> e = TypeError \<or> e = ProviderError"

definition narrate :: "jsval \<Rightarrow> session \<Rightarrow> session" where
  "narrate story g = g\<lparr>trace := trace g @ [Narration story]\<rparr>"

definition sendPrompt :: "message list \<Rightarrow> session \<Rightarrow> session" where
  "sendPrompt messages g = g\<lparr>trace := trace g @ [PromptCall messages]\<rparr>"

text \<open>\<open>applyHP\<close> and \<open>applyXP\<close> on the character of the session.\<close>

definition session_applyHP :: "rat \<Rightarrow> session \<Rightarrow> session" where
  "session_applyHP change g =
     g\<lparr>character := applyHP change (character g), trace := trace g @ [HPApplied change]\<rparr>"

definition session_applyXP :: "rat \<Rightarrow> session \<Rightarrow> unit result" where
  "session_applyXP amount g =
     (case applyXP amount (character g) of
        None \<Rightarrow> Fail Hang g
      | Some c \<Rightarrow> Ok () (g\<lparr>character := c, trace := trace g @ [XPApplied amount]\<rparr>))"

text \<open>
  Items, as \<open>processAIResponse\<close> and \<open>handleDiceEvent\<close> both handle them:
  \<^verbatim>\<open>
  if (data.item_gained) { game.items.push(data.item_gained); ... }
  if (data.item_lost) {
    const idx = game.items.indexOf(data.item_lost);
    if (idx !== -1) game.items.splice(idx, 1);
  }\<close>
\<close>

fun removeFirst :: "jsval \<Rightarrow> jsval list \<Rightarrow> jsval list" where
  "removeFirst v [] = []"
| "removeFirst v (x # xs) = (if strict_eq x v then xs else x # removeFirst v xs)"

definition applyItems :: "jsval \<Rightarrow> session \<Rightarrow> session" where
  "applyItems resp g =
     (let g1 = (if truthy (rd resp ''item_gained'')
                then g\<lparr>items := items g @ [rd resp ''item_gained'']\<rparr> else g)
      in if truthy (rd resp ''item_lost'')
         then g1\<lparr>items := removeFirst (rd resp ''item_lost'') (items g1)\<rparr> else g1)"

text \<open>
  The search that \<open>addNPC\<close> and \<open>updateNPCs\<close> share:
  \<^verbatim>\<open>game.keyNpcs.find(n => n.name.toLowerCase() === who.name.toLowerCase())\<close>
  It yields the position of the first match. A name that is not a string has no
  \<open>toLowerCase\<close>, and calling it raises a TypeError; with no NPC yet nothing is called.
\<close>

fun findNPC :: "platform \<Rightarrow> jsval list \<Rightarrow> jsval \<Rightarrow> error + nat option" where
  "findNPC P [] who = Inr None"
| "findNPC P (n # ns) who =
     (if nullish n then Inl TypeError
      else case rd n ''name'' of
        Str a \<Rightarrow>
          (if nullish who then Inl TypeError
           else case rd who ''name'' of
             Str b \<Rightarrow>
               (if toLowerCase P a = toLowerCase P b then Inr (Some 0)
                else case findNPC P ns who of
                       Inl e \<Rightarrow> Inl e
                     | Inr None \<Rightarrow> Inr None
                     | Inr (Some i) \<Rightarrow> Inr (Some (Suc i)))
           | _ \<Rightarrow> Inl TypeError)
      | _ \<Rightarrow> Inl TypeError)"

text \<open>
  \<^verbatim>\<open>
  function addNPC(npcData) {
    const game = GameState.getGame();
    if (game.keyNpcs.length >= MAX_KEY_NPCS) { return; }
    const existing = game.keyNpcs.find(...);
    if (existing) { return; }
    game.keyNpcs.push({
      name: npcData.name,
      role: npcData.role || '',
      personality: npcData.personality || '',
      appearance: npcData.appearance || '',
      relationship: npcData.relationship || 0,
    });
  }\<close>
\<close>

definition addNPC :: "platform \<Rightarrow> jsval \<Rightarrow> session \<Rightarrow> unit result" where
  "addNPC P npcData g =
     (if MAX_KEY_NPCS \<le> length (keyNpcs g) then Ok () g
      else case findNPC P (keyNpcs g) npcData of
             Inl e \<Rightarrow> Fail e g
           | Inr (Some i) \<Rightarrow> Ok () g
           | Inr None \<Rightarrow>
               if nullish npcData then Fail TypeError g
               else Ok () (g\<lparr>keyNpcs := keyNpcs g @
                      [Obj [(''name'', rd npcData ''name''),
                            (''role'', js_or (rd npcData ''role'') (Str [])),
                            (''personality'', js_or (rd npcData ''personality'') (Str [])),
                            (''appearance'', js_or (rd npcData ''appearance'') (Str [])),
                            (''relationship'',
                               js_or (rd npcData ''relationship'') (Num 0))]]\<rparr>))"

text \<open>
  \<^verbatim>\<open>
  function updateNPCs(updates) {
    const game = GameState.getGame();
    updates.forEach(update => {
      const npc = game.keyNpcs.find(...);
      if (npc) {
        npc.relationship =
          Math.max(-100, Math.min(100, npc.relationship + (update.change || 0)));
      }
    });
  }\<close>
  Only an array has \<open>forEach\<close>. The sum is followed when both operands are numbers.
\<close>

definition updateNPC :: "platform \<Rightarrow> jsval \<Rightarrow> session \<Rightarrow> unit result" where
  "updateNPC P update g =
     (case findNPC P (keyNpcs g) update of
        Inl e \<Rightarrow> Fail e g
      | Inr None \<Rightarrow> Ok () g
      | Inr (Some i) \<Rightarrow>
          (let npc = keyNpcs g ! i
           in case (rd npc ''relationship'', js_or (rd update ''change'') (Num 0)) of
                (Num a, Num b) \<Rightarrow>
                  Ok () (g\<lparr>keyNpcs := (keyNpcs g)
                           [i := wr npc ''relationship''
                                   (Num (max (- 100) (min 100 (a + b))))]\<rparr>)
              | _ \<Rightarrow> Fail Unmodelled g))"

fun updateAll :: "platform \<Rightarrow> jsval list \<Rightarrow> session \<Rightarrow> unit result" where
  "updateAll P [] g = Ok () g"
| "updateAll P (u # us) g = andThen (updateNPC P u g) (\<lambda>_. updateAll P us)"

definition updateNPCs :: "platform \<Rightarrow> jsval \<Rightarrow> session \<Rightarrow> unit result" where
  "updateNPCs P updates g =
     (case updates of Arr us ps \<Rightarrow> updateAll P us g | _ \<Rightarrow> Fail TypeError g)"

text \<open>
  Saving. Only the effect on the session is modelled: \<open>markSaved\<close> after a write that
  succeeded, and the slot that the first manual save creates.
  \<^verbatim>\<open>
  async function autoSave() {
    if (!player.id || !game.saveSlotId) return;
    try { ... await DB.updateSaveSlot(...); GameState.markSaved(); ... } catch (err) { ... }
  }
  async function manualSave() {
    if (!player.id) { ...; return; }
    try {
      if (game.saveSlotId) { await DB.updateSaveSlot(...); }
      else { ... const saved = await DB.createSaveSlot(...);
             game.saveSlotId = saved.id; game.slotNumber = saved.slot_number; }
      GameState.markSaved();
    } catch (err) { ... }
  }
  function endGame(outcome) {
    game.status = outcome === 'victory' ? 'completed' : 'failed';
    manualSave();
    showEpilogue(outcome);
  }\<close>
\<close>

definition autoSave :: "env \<Rightarrow> session \<Rightarrow> session" where
  "autoSave E g =
     (if \<not> truthy (playerId g) \<or> \<not> truthy (saveSlotId g) then g
      else if dbWrites E then markSaved g else g)"

definition manualSave :: "env \<Rightarrow> session \<Rightarrow> session" where
  "manualSave E g =
     (if \<not> truthy (playerId g) then g
      else if dbWrites E
           then markSaved (if truthy (saveSlotId g) then g
                           else g\<lparr>saveSlotId := fst (newSlot E),
                                  slotNumber := snd (newSlot E)\<rparr>)
           else g)"

definition endGame :: "env \<Rightarrow> string \<Rightarrow> session \<Rightarrow> session" where
  "endGame E outcome g =
     manualSave E (g\<lparr>status := (if outcome = ''victory'' then ''completed'' else ''failed'')\<rparr>)"


text \<open>
  What a response brings with its story, in the order in which \<open>processAIResponse\<close> (for
  the primary response) and \<open>handleDiceEvent\<close> (for the outcome response) go through it:
  \<^verbatim>\<open>
  if (data.story) { await UI.addStoryNarration(storyContainer, data.story); }
  if (data.item_gained) { ... }
  if (data.item_lost) { ... }
  if (data.new_npc) { addNPC(data.new_npc); }
  if (data.npc_updates) { updateNPCs(data.npc_updates); }\<close>
\<close>

definition storyEffects :: "platform \<Rightarrow> jsval \<Rightarrow> session \<Rightarrow> unit result" where
  "storyEffects P resp g =
     (let g1 = (if truthy (rd resp ''story'') then narrate (rd resp ''story'') g else g);
          g2 = applyItems resp g1
      in andThen (if truthy (rd resp ''new_npc'')
                  then addNPC P (rd resp ''new_npc'') g2 else Ok () g2)
           (\<lambda>_ g3. if truthy (rd resp ''npc_updates'')
                    then updateNPCs P (rd resp ''npc_updates'') g3 else Ok () g3))"

text \<open>
  \<open>waitForDiceRoll\<close>: without the dice button it resolves to \<open>null\<close>; otherwise the click
  handler rolls. The model follows an event whose difficulty is a number.
  \<^verbatim>\<open>
  if (!diceBtn) { resolve(null); return; }
  ...
  const char = GameState.getCharacter();
  const useSpecial = char.specialAbility.stat === event.stat && char.specialAbility.name;
  const result = await Dice.roll(event.stat, event.difficulty, useSpecial);
  resolve(result);\<close>
\<close>

definition waitForDiceRoll :: "env \<Rightarrow> platform \<Rightarrow> jsval \<Rightarrow> session \<Rightarrow> diceResult option result" where
  "waitForDiceRoll E P event g =
     (if \<not> diceBtn E then Ok None g
      else case rd event ''difficulty'' of
             Num d \<Rightarrow>
               Ok (Some (Dice_roll P (character g) (d20 E) (rd event ''stat'') d
                           (useSpecial (character g) event))) g
           | _ \<Rightarrow> Fail Unmodelled g)"

text \<open>
  The mechanical part of \<open>handleDiceEvent\<close>:
  \<^verbatim>\<open>
  let hpLost = 0;
  const xpGained = calculateXP(diceResult.passed, event.difficulty);
  if (!diceResult.passed) {
    hpLost = calculateHPLoss(event);
    if (hpLost < 0) { applyHP(hpLost); }
  }
  applyXP(xpGained);\<close>
\<close>

definition applyMechanics :: "jsval \<Rightarrow> diceResult \<Rightarrow> session \<Rightarrow> (rat \<times> rat) result" where
  "applyMechanics event r g =
     (case rd event ''difficulty'' of
        Num d \<Rightarrow>
          (let xpGained = calculateXP (passed r) d;
               hpLost = (if \<not> passed r then calculateHPLoss event d else 0);
               g1 = (if \<not> passed r \<and> hpLost < 0 then session_applyHP hpLost g else g)
           in andThen (session_applyXP xpGained g1) (\<lambda>_. Ok (hpLost, xpGained)))
      | _ \<Rightarrow> Fail Unmodelled g)"

text \<open>
  The body of the \<open>try\<close> of \<open>handleDiceEvent\<close>:
  \<^verbatim>\<open>
  const systemPrompt = AI.buildDiceOutcomeContext();
  const { messages, outcomeMsg } =
    AI.buildDiceOutcomeMessages(event, diceResult, hpLost, xpGained);
  const raw = await AI.sendPrompt(messages, systemPrompt);
  const { data: outcomeData } = AI.validateDiceOutcome(raw);
  if (outcomeData.story) { await UI.addStoryNarration(storyContainer, outcomeData.story); }
  if (outcomeData.item_gained) { ... }
  if (outcomeData.item_lost) { ... }
  if (outcomeData.new_npc) addNPC(outcomeData.new_npc);
  if (outcomeData.npc_updates) updateNPCs(outcomeData.npc_updates);
  return { request: outcomeMsg, response: outcomeData };\<close>
\<close>

definition narrateOutcome ::
  "env \<Rightarrow> platform \<Rightarrow> jsval \<Rightarrow> diceResult \<Rightarrow> rat \<Rightarrow> rat \<Rightarrow> session \<Rightarrow> jsval result" where
  "narrateOutcome E P event r hpLost xpGained g =
     (let (messages, msg) = buildDiceOutcomeMessages P event r hpLost xpGained g;
          g1 = sendPrompt messages g
      in case outcomeReply E of
           Inl e \<Rightarrow> Fail e g1
         | Inr raw \<Rightarrow>
             (let outcomeData = data (validateDiceOutcome P raw)
              in andThen (storyEffects P outcomeData g1)
                   (\<lambda>_. Ok (Obj [(''request'', Str msg), (''response'', outcomeData)]))))"

text \<open>
  \<^verbatim>\<open>
  } catch (err) {
    const fallbackStory = diceResult.passed
      ? 'You succeed in your attempt.' : 'Your attempt fails.';
    await UI.addStoryNarration(storyContainer, fallbackStory);
    return null;
  }\<close>
\<close>

definition fallbackStory :: "diceResult \<Rightarrow> string" where
  "fallbackStory r = (if passed r then ''You succeed in your attempt.'' else ''Your attempt fails.'')"

text \<open>
  \<^verbatim>\<open>
  async function handleDiceEvent(event, storyContainer) {
    debugLog('GAME_EVT', `Dice event: ${event.type}`, event);
    UI.addEventCard(storyContainer, event);
    const diceResult = await waitForDiceRoll(event);
    if (!diceResult) return null;
    ... mechanical part ...
    try { ... } catch (err) { ... }
  }\<close>
\<close>

definition handleDiceEvent :: "env \<Rightarrow> platform \<Rightarrow> jsval \<Rightarrow> session \<Rightarrow> jsval result" where
  "handleDiceEvent E P event g =
     (if nullish event then Fail TypeError g
      else andThen (waitForDiceRoll E P event g) (\<lambda>dr g1.
        case dr of
          None \<Rightarrow> Ok Null g1
        | Some r \<Rightarrow>
            andThen (applyMechanics event r g1) (\<lambda>(hpLost, xpGained) g2.
              case narrateOutcome E P event r hpLost xpGained g2 of
                Ok v g3 \<Rightarrow> Ok v g3
              | Fail e g3 \<Rightarrow>
                  if catchable e then Ok Null (narrate (Str (fallbackStory r)) g3)
                  else Fail e g3)))"

text \<open>
  The two tests of \<open>processAIResponse\<close> on the event of the response:
  \<^verbatim>\<open>
  if (data.event && (data.event.type === 'stat_check' || data.event.type === 'combat')) {
  ...
  if (!data.event || (data.event.type !== 'stat_check' && data.event.type !== 'combat')) {\<close>
\<close>

definition isDiceEvent :: "jsval \<Rightarrow> bool" where
  "isDiceEvent event \<longleftrightarrow>
     truthy event \<and> (rd event ''type'' = Str ''stat_check'' \<or> rd event ''type'' = Str ''combat'')"

definition isNonDiceTurn :: "jsval \<Rightarrow> bool" where
  "isNonDiceTurn event \<longleftrightarrow>
     \<not> truthy event \<or> (rd event ''type'' \<noteq> Str ''stat_check'' \<and> rd event ''type'' \<noteq> Str ''combat'')"

text \<open>
  \<^verbatim>\<open>
  if (data.xp_gained && data.xp_gained > 0) applyXP(data.xp_gained);
  if (data.hp_change && data.hp_change !== 0) applyHP(data.hp_change);\<close>
  The model follows a declared value that is a number or is falsy.
\<close>

definition applyDeclaredXP :: "jsval \<Rightarrow> session \<Rightarrow> unit result" where
  "applyDeclaredXP resp g =
     (case rd resp ''xp_gained'' of
        Num x \<Rightarrow> if x \<noteq> 0 \<and> 0 < x then session_applyXP x g else Ok () g
      | v \<Rightarrow> if truthy v then Fail Unmodelled g else Ok () g)"

definition applyDeclaredHP :: "jsval \<Rightarrow> session \<Rightarrow> unit result" where
  "applyDeclaredHP resp g =
     (case rd resp ''hp_change'' of
        Num h \<Rightarrow> if h \<noteq> 0 then Ok () (session_applyHP h g) else Ok () g
      | v \<Rightarrow> if truthy v then Fail Unmodelled g else Ok () g)"

definition applyDeclared :: "jsval \<Rightarrow> session \<Rightarrow> unit result" where
  "applyDeclared resp g = andThen (applyDeclaredXP resp g) (\<lambda>_. applyDeclaredHP resp)"

text \<open>
  \<^verbatim>\<open>
  const turnEntry = {
    playerAction, aiResponse: data,
    diceOutcomeRequest: null, diceOutcomeResponse: null,
    timestamp: new Date().toISOString(),
  };
  ...
  if (diceOutcome) {
    turnEntry.diceOutcomeRequest = diceOutcome.request;
    turnEntry.diceOutcomeResponse = diceOutcome.response;
  }\<close>
\<close>

definition turnEntry :: "env \<Rightarrow> jsval \<Rightarrow> jsval \<Rightarrow> jsval \<Rightarrow> turn" where
  "turnEntry E resp action diceOutcome =
     \<lparr>playerAction = action, aiResponse = resp,
      diceOutcomeRequest = (if truthy diceOutcome then rd diceOutcome ''request'' else Null),
      diceOutcomeResponse = (if truthy diceOutcome then rd diceOutcome ''response'' else Null),
      timestamp = now E\<rparr>"

text \<open>
  The end of \<open>processAIResponse\<close>:
  \<^verbatim>\<open>
  GameState.addStoryEntry(turnEntry);
  const turnCount = GameState.incrementTurn();
  const outcomeData = turnEntry.diceOutcomeResponse;
  if (data.game_end || (outcomeData && outcomeData.game_end)) {
    endGame(GameState.getCharacter().hp > 0 ? 'victory' : 'defeat');
    return;
  }
  if (GameState.getCharacter().hp <= 0) { endGame('defeat'); return; }
  if (GameState.shouldAutoSave()) { await autoSave(); }\<close>
\<close>

definition finishTurn :: "env \<Rightarrow> jsval \<Rightarrow> turn \<Rightarrow> session \<Rightarrow> session" where
  "finishTurn E resp entry g =
     (let g1 = incrementTurn (addStoryEntry entry g);
          outcomeData = diceOutcomeResponse entry
      in if truthy (js_or (rd resp ''game_end'')
                          (js_and outcomeData (rd outcomeData ''game_end'')))
         then endGame E (if 0 < hp (character g1) then ''victory'' else ''defeat'') g1
         else if hp (character g1) \<le> 0 then endGame E ''defeat'' g1
         else if shouldAutoSave g1 then autoSave E g1
         else g1)"

text \<open>
  \<^verbatim>\<open>
  async function processAIResponse(data, playerAction) {
    const storyContainer = document.getElementById('story-container');
    if (!storyContainer) return;
    if (data.story) { await UI.addStoryNarration(storyContainer, data.story); }
    ... items ...
    if (data.new_npc) { addNPC(data.new_npc); }
    if (data.npc_updates) { updateNPCs(data.npc_updates); }
    const turnEntry = { ... };
    if (data.event && (...)) {
      const diceOutcome = await handleDiceEvent(data.event, storyContainer);
      if (diceOutcome) { ... }
    } else if (data.event) { ... UI.addEventCard(storyContainer, data.event); }
    if (!data.event || (...)) { ... declared xp, then declared hp ... }
    ... end of the turn ...
  }\<close>
\<close>

definition processAIResponse :: "env \<Rightarrow> platform \<Rightarrow> jsval \<Rightarrow> jsval \<Rightarrow> session \<Rightarrow> unit result" where
  "processAIResponse E P resp action g =
     (if \<not> storyContainer E then Ok () g
      else if nullish resp then Fail TypeError g
      else
        andThen (storyEffects P resp g)
          (\<lambda>_ g4.
        andThen (if isDiceEvent (rd resp ''event'')
                 then handleDiceEvent E P (rd resp ''event'') g4 else Ok Null g4)
          (\<lambda>diceOutcome g5.
        andThen (if isNonDiceTurn (rd resp ''event'') then applyDeclared resp g5 else Ok () g5)
          (\<lambda>_ g6.
        Ok () (finishTurn E resp (turnEntry E resp action diceOutcome) g6)))))"




text \<open>The session a step ends in, whether it completed or threw, and the generator calls
  recorded in a trace.\<close>

fun session_of :: "'a result \<Rightarrow> session" where
  "session_of (Ok x g) = g"
| "session_of (Fail e g) = g"

fun promptCalls :: "effect list \<Rightarrow> message list list" where
  "promptCalls [] = []"
| "promptCalls (PromptCall ms # es) = ms # promptCalls es"
| "promptCalls (e # es) = promptCalls es"


text \<open>What the steps of a turn may do to the session before the turn is stored: replace
  the character, the items and the NPCs, and extend the trace.\<close>

definition touches :: "session \<Rightarrow> session \<Rightarrow> bool" where
  "touches g g' \<longleftrightarrow>
     (\<exists>c its ks tr. g' = g\<lparr>character := c, keyNpcs := ks, items := its,
                             trace := trace g @ tr\<rparr>)"


text \<open>Whether a step completed.\<close>

fun completed :: "'a result \<Rightarrow> bool" where
  "completed (Ok x g) = True"
| "completed (Fail e g) = False"

section \<open>Example inputs\<close>

text \<open>
  A small platform for the examples: it parses the documents listed here (each entry is
  what \<open>JSON.parse\<close> returns for that text) and rejects every other text, takes blanks,
  tabs and line ends for white space, and finds no number in a string, an array or an
  object (the examples convert only the word \<open>hard\<close>). It renders every value as the
  same placeholder text.
\<close>

definition doc_trap :: string where
  "doc_trap = ''{\"story\":\"A door creaks.\",\"event\":{\"type\":\"trap\"}}''"

definition doc_hard :: string where
  "doc_hard = ''{\"story\":\"You face the wall.\",\"event\":{\"type\":\"stat_check\",\"stat\":\"STR\",\"difficulty\":\"hard\",\"severity\":\"basic\"}}''"

definition doc_guard :: string where
  "doc_guard = ''{\"story\":\"A guard blocks the gate.\",\"event\":{\"type\":\"combat\",\"stat\":\"STR\",\"difficulty\":12,\"severity\":\"important\"},\"hp_change\":-30,\"xp_gained\":50}''"

definition doc_rest :: string where
  "doc_rest = ''{\"story\":\"You rest by the fire.\",\"hp_change\":5,\"xp_gained\":-10}''"

definition doc_swing :: string where
  "doc_swing = ''{\"story\":\"Your blade glances off his shield.\"}''"

definition doc_dusk :: string where
  "doc_dusk = ''{\"story\":\"Dusk settles over the gate of Emberfall.\"}''"

definition demo_documents :: "(string \<times> jsval) list" where
  "demo_documents =
     [(doc_trap,
        Obj [(''story'', Str ''A door creaks.''),
             (''event'', Obj [(''type'', Str ''trap'')])]),
      (doc_hard,
        Obj [(''story'', Str ''You face the wall.''),
             (''event'', Obj [(''type'', Str ''stat_check''), (''stat'', Str ''STR''),
                              (''difficulty'', Str ''hard''), (''severity'', Str ''basic'')])]),
      (doc_guard,
        Obj [(''story'', Str ''A guard blocks the gate.''),
             (''event'', Obj [(''type'', Str ''combat''), (''stat'', Str ''STR''),
                              (''difficulty'', Num 12), (''severity'', Str ''important'')]),
             (''hp_change'', Num (- 30)), (''xp_gained'', Num 50)]),
      (doc_rest,
        Obj [(''story'', Str ''You rest by the fire.''),
             (''hp_change'', Num 5), (''xp_gained'', Num (- 10))]),
      (doc_swing,
        Obj [(''story'', Str ''Your blade glances off his shield.'')]),
      (doc_dusk,
        Obj [(''story'', Str ''Dusk settles over the gate of Emberfall.'')]),
      (''null'', Null)]"

definition is_space :: "char \<Rightarrow> bool" where
  "is_space c \<longleftrightarrow> c = CHR '' '' \<or> c = CHR 0x09 \<or> c = CHR 0x0A \<or> c = CHR 0x0D"

definition demo_platform :: platform where
  "demo_platform =
     \<lparr>JSON_parse = map_of demo_documents,
      JSON_stringify = (\<lambda>v. ''{}''),
      ToNumber = (\<lambda>v. None),
      ToString = (\<lambda>v. ''?''),
      trimStart = dropWhile is_space,
      trimEnd = (\<lambda>s. rev (dropWhile is_space (rev s))),
      toLowerCase = (\<lambda>s. s)\<rparr>"


text \<open>A character sheet filled in with a blank ability name, the session that begins with
  it, and the surroundings of a turn in which the player rolls a 2.\<close>

definition demo_form :: characterForm where
  "demo_form =
     \<lparr>char_name = ''Ayla'', gender_selected = None, ability_name = Some ''  '',
      ability_stat = Some ''STR'', ability_desc = None,
      stat_points = \<lparr>stat_STR = 3, stat_DEX = 2, stat_INT = 2, stat_CHA = 2, stat_WIL = 1\<rparr>\<rparr>"

definition demo_character :: character where
  "demo_character =
     \<lparr>name = ''Ayla'', gender = ''unspecified'', level = 1, xp = 90, xpToNext = 100,
      hp = 100, maxHp = 100,
      stats = \<lparr>stat_STR = 3, stat_DEX = 2, stat_INT = 2, stat_CHA = 2, stat_WIL = 1\<rparr>,
      specialAbility = \<lparr>ab_name = ''None'', ab_stat = ''STR'', ab_description = []\<rparr>\<rparr>"

definition demo_session :: session where
  "demo_session =
     \<lparr>saveSlotId = Str ''slot-1'', slotNumber = Num 1, status = ''active'',
      world = [''name'' \<mapsto> Str ''Emberfall'', ''genre'' \<mapsto> Str ''fantasy'',
               ''tone'' \<mapsto> Str ''grim'', ''details'' \<mapsto> Str ''A walled city.'',
               ''goal'' \<mapsto> Str ''Enter the city.'',
               ''startingScenario'' \<mapsto> Str ''A gate at dusk'', ''summary'' \<mapsto> Str []],
      character = demo_character, keyNpcs = [], items = [], storyHistory = [],
      recentTurns = [], storySummary = [], turnCount = 0, lastSaveTurn = 0,
      aiMessages = [], playerId = Str ''player-1'', autoSaveInterval = 5, trace = []\<rparr>"

definition demo_env :: env where
  "demo_env =
     \<lparr>storyContainer = True, diceBtn = True, d20 = 2,
      primaryReply = Inr doc_guard, outcomeReply = Inr doc_swing,
      now = ''2026-01-01T00:00:00.000Z'', dbWrites = True,
      newSlot = (Str ''slot-2'', Num 2)\<rparr>"

definition demo_event :: jsval where
  "demo_event =
     Obj [(''type'', Str ''combat''), (''stat'', Str ''STR''),
          (''difficulty'', Num 12), (''severity'', Str ''important'')]"


text \<open>The validated form of the guard reply, and surroundings in which the outcome call
  fails, or is answered with a text that is not JSON.\<close>

definition demo_response :: jsval where
  "demo_response =
     Obj [(''story'', Str ''A guard blocks the gate.''), (''event'', demo_event),
          (''hp_change'', Num (- 30)), (''xp_gained'', Num 50), (''game_end'', Bool False)]"




text \<open>The validated form of the reply in which the player rests.\<close>

definition demo_rest :: jsval where
  "demo_rest =
     Obj [(''story'', Str ''You rest by the fire.''), (''hp_change'', Num 5),
          (''xp_gained'', Num (- 10)), (''game_end'', Bool False)]"


text \<open>The validated form of a reply without event that declares both deltas: enough XP
  for the next level, and a wound deeper than the character's HP before that level.\<close>

definition demo_loot :: jsval where
  "demo_loot =
     Obj [(''story'', Str ''The chest bites back, but the key is yours.''),
          (''item_gained'', Str ''Iron key''), (''hp_change'', Num (- 105)),
          (''xp_gained'', Num 15), (''game_end'', Bool False)]"







section \<open>Progression: proofs\<close>





lemma applyXP_one_level:
  "applyXP 20 \<lparr>name = n, gender = g, level = 1, xp = 90, xpToNext = 100, hp = 100,
               maxHp = 100, stats = st, specialAbility = sa\<rparr>
   = Some \<lparr>name = n, gender = g, level = 2, xp = 10, xpToNext = 150, hp = 110,
           maxHp = 110, stats = st, specialAbility = sa\<rparr>"
  by (simp add: applyXP_def levelLoop.simps)

lemma applyXP_two_levels:
  "applyXP 260 \<lparr>name = n, gender = g, level = 1, xp = 90, xpToNext = 100, hp = 100,
                maxHp = 100, stats = st, specialAbility = sa\<rparr>
   = Some \<lparr>name = n, gender = g, level = 3, xp = 100, xpToNext = 225, hp = 120,
           maxHp = 120, stats = st, specialAbility = sa\<rparr>"
  by (simp add: applyXP_def levelLoop.simps)

text \<open>The bound \<open>xpToNext \<ge> 1\<close> is needed: a threshold of 0 (which the floor makes of any
  threshold below 1) is subtracted for ever, and the loop never returns.\<close>

lemma levelLoop_zero_threshold:
  assumes "levelLoop c = Some y"
  shows "\<not> (xpToNext c = 0 \<and> 0 \<le> xp c)"
proof (rule levelLoop.raw_induct
         [where P = "\<lambda>c y. \<not> (xpToNext c = 0 \<and> 0 \<le> xp c)" and c = c and y = y])
  show "levelLoop c = Some y" by fact
next
  fix loop :: "character \<Rightarrow> character option" and c y
  assume IH: "\<And>x z. loop x = Some z \<Longrightarrow> \<not> (xpToNext x = 0 \<and> 0 \<le> xp x)"
    and eq: "(if xpToNext c \<le> xp c
      then loop (c\<lparr>xp := xp c - xpToNext c, level := level c + 1,
                 xpToNext := rat_of_int \<lfloor>xpToNext c * (3 / 2)\<rfloor>,
                 maxHp := maxHp c + 10,
                 hp := min (hp c + 10) (maxHp c + 10)\<rparr>)
      else Some c) = Some y"
  show "\<not> (xpToNext c = 0 \<and> 0 \<le> xp c)"
  proof
    assume h: "xpToNext c = 0 \<and> 0 \<le> xp c"
    define d where "d = c\<lparr>xp := xp c - xpToNext c, level := level c + 1,
                 xpToNext := rat_of_int \<lfloor>xpToNext c * (3 / 2)\<rfloor>,
                 maxHp := maxHp c + 10,
                 hp := min (hp c + 10) (maxHp c + 10)\<rparr>"
    have "loop d = Some y" using eq h unfolding d_def by simp
    then have "\<not> (xpToNext d = 0 \<and> 0 \<le> xp d)" by (rule IH)
    moreover have "xpToNext d = 0" "xp d = xp c" using h by (simp_all add: d_def)
    ultimately show False using h by simp
  qed
qed

section \<open>Reading and writing properties\<close>

lemma lookup_update:
  "lookup (AList.update k v ps) k' = (if k' = k then v else lookup ps k')"
  by (simp add: lookup_def update_conv')

lemma rd_wr_same:
  "rd (wr p k v) k = (case p of Obj ps \<Rightarrow> v | Arr es ps \<Rightarrow> v | _ \<Rightarrow> Undefined)"
  by (cases p) (simp_all add: lookup_update)

lemma rd_wr_other: "k' \<noteq> k \<Longrightarrow> rd (wr p k v) k' = rd p k'"
  by (cases p) (simp_all add: lookup_update)

lemma rd_defined_wr: "rd p k' \<noteq> Undefined \<Longrightarrow> rd (wr p k v) k = v"
  by (cases p) (simp_all add: lookup_update)

lemma nullish_wr [simp]: "nullish (wr p k v) = nullish p"
  by (cases p) simp_all

section \<open>Validation: proofs\<close>


lemma rd_event_repairStory [simp]:
  "rd (fst (repairStory raw (p, es))) ''event'' = rd p ''event''"
  by (simp add: repairStory_def rd_wr_other)

lemma nullish_repairStory [simp]:
  "nullish (fst (repairStory raw (p, es))) = nullish p"
  by (simp add: repairStory_def)


lemma rd_difficulty_repairStat [simp]:
  "rd (fst (repairStat P (e, es))) ''difficulty'' = rd e ''difficulty''"
  by (simp add: repairStat_def rd_wr_other)



lemma validateGameResponse_parsed:
  assumes "JSON_parse P (stripFences P raw) = Some parsed" and "\<not> nullish parsed"
  shows "validateGameResponse P raw =
           Inr \<lparr>valid = (snd (repairEvent P (repairStory raw (parsed, []))) = []),
                data = applyDefaults (fst (repairEvent P (repairStory raw (parsed, [])))),
                errors = snd (repairEvent P (repairStory raw (parsed, [])))\<rparr>"
  using assms by (simp add: validateGameResponse_def split_beta Let_def)


lemmas demo_defs =
  demo_platform_def demo_documents_def doc_trap_def doc_hard_def doc_guard_def doc_rest_def
  doc_swing_def doc_dusk_def is_space_def stripFences_def trim_def






text \<open>Beside that, the primary validator does raise on one kind of input: a reply that
  parses to \<open>null\<close> passes the guarded parse, and the read of its story throws.\<close>

lemma validateGameResponse_null_raises:
  assumes "JSON_parse P (stripFences P raw) = Some Null"
  shows "validateGameResponse P raw = Inl TypeError"
  using assms by (simp add: validateGameResponse_def)

lemma validateGameResponse_null_example:
  "validateGameResponse demo_platform ''null'' = Inl TypeError"
  by (simp add: demo_defs validateGameResponse_def)

section \<open>The repaired event\<close>

lemma rd_applyDefaults_event [simp]: "rd (applyDefaults p) ''event'' = rd p ''event''"
  by (simp add: applyDefaults_def defaultField_def rd_wr_other)

lemma truthy_defined: "truthy v \<Longrightarrow> v \<noteq> Undefined"
  by (cases v) simp_all

lemma typed_defined: "rd e ''type'' = Str t \<Longrightarrow> rd e k \<noteq> Undefined \<or> (\<forall>v. rd (wr e k v) k = v)"
  by (cases e) (simp_all add: lookup_update)

lemma wr_takes_effect: "rd e k' = Str t \<Longrightarrow> rd (wr e k v) k = v"
  by (cases e) (simp_all add: lookup_update)

lemma STR_valid: "Str ''STR'' \<in> set (map Str validStats)"
  by (simp add: validStats_def)

lemma repairStat_other [simp]:
  "k \<noteq> ''stat'' \<Longrightarrow> rd (fst (repairStat P (e, es))) k = rd e k"
  by (simp add: repairStat_def rd_wr_other)

lemma repairStat_valid:
  assumes "rd e ''type'' = Str t"
  shows "rd (fst (repairStat P (e, es))) ''stat'' \<in> set (map Str validStats)"
    and "rd e ''stat'' \<notin> set (map Str validStats) \<Longrightarrow>
         rd (fst (repairStat P (e, es))) ''stat'' = Str ''STR''"
  using assms wr_takes_effect [OF assms, of "''stat''" "Str ''STR''"] STR_valid
  by (simp_all add: repairStat_def del: set_map)

lemma repairDifficulty_number:
  assumes "rd e ''type'' = Str t" and "rd e ''difficulty'' = Num d"
  shows "rd (fst (repairDifficulty P (e, es))) ''difficulty''
           = Num (if d = 0 then 12 else max 1 (min 20 d))"
  using assms wr_takes_effect [OF assms(1), of "''difficulty''"]
  by (auto simp: repairDifficulty_def js_or_def Math_max_def Math_min_def number_def
        max_def min_def)

lemma repairDifficulty_other [simp]:
  "k \<noteq> ''difficulty'' \<Longrightarrow> rd (fst (repairDifficulty P (e, es))) k = rd e k"
  by (simp add: repairDifficulty_def rd_wr_other)

lemma repairSeverity_valid:
  assumes "rd e ''type'' = Str t"
  shows "rd (repairSeverity e) ''severity'' \<in> {Str ''basic'', Str ''important''}"
    and "rd e ''severity'' \<notin> {Str ''basic'', Str ''important''} \<Longrightarrow>
         rd (repairSeverity e) ''severity'' = Str ''basic''"
  using assms wr_takes_effect [OF assms, of "''severity''" "Str ''basic''"]
  by (auto simp: repairSeverity_def)

lemma repairSeverity_other [simp]:
  "k \<noteq> ''severity'' \<Longrightarrow> rd (repairSeverity e) k = rd e k"
  by (simp add: repairSeverity_def rd_wr_other)

text \<open>
  What holds of the claim about events: an event of unknown type becomes \<open>null\<close> (and the
  error is recorded); in a stat_check or combat event the stat is
  one of the five afterwards, \<open>STR\<close> when it was not; the severity is \<open>basic\<close> or
  \<open>important\<close> afterwards, \<open>basic\<close> when it was neither; and a difficulty that is a number
  ends in the range 1 to 20: unchanged inside it, 1 below it, 20 above it, except that 0
  becomes 12.
\<close>

lemma validated_event:
  assumes "JSON_parse P (stripFences P raw) = Some parsed" and "\<not> nullish parsed"
    and "truthy (rd parsed ''event'')"
  shows "\<exists>v. validateGameResponse P raw = Inr v \<and>
    (rd (rd parsed ''event'') ''type'' \<notin> set (map Str validTypes)
       \<longrightarrow> rd (data v) ''event'' = Null) \<and>
    (rd (rd parsed ''event'') ''type'' = Str ''stat_check''
       \<or> rd (rd parsed ''event'') ''type'' = Str ''combat'' \<longrightarrow>
       rd (rd (data v) ''event'') ''stat'' \<in> set (map Str validStats)
     \<and> (rd (rd parsed ''event'') ''stat'' \<notin> set (map Str validStats)
          \<longrightarrow> rd (rd (data v) ''event'') ''stat'' = Str ''STR'')
     \<and> rd (rd (data v) ''event'') ''severity'' \<in> {Str ''basic'', Str ''important''}
     \<and> (rd (rd parsed ''event'') ''severity'' \<notin> {Str ''basic'', Str ''important''}
          \<longrightarrow> rd (rd (data v) ''event'') ''severity'' = Str ''basic'')
     \<and> (\<forall>d. rd (rd parsed ''event'') ''difficulty'' = Num d \<longrightarrow>
            rd (rd (data v) ''event'') ''difficulty''
              = Num (if d = 0 then 12 else max 1 (min 20 d))))"
proof -
  let ?ev = "rd parsed ''event''"
  obtain p1 es1 where s: "repairStory raw (parsed, []) = (p1, es1)"
    by (cases "repairStory raw (parsed, [])")
  have ev: "rd p1 ''event'' = ?ev"
    using rd_event_repairStory [of raw parsed "[]"] s by simp
  have def1: "rd p1 ''event'' \<noteq> Undefined" using ev assms(3) truthy_defined by simp
  have v: "validateGameResponse P raw =
           Inr \<lparr>valid = (snd (repairEvent P (p1, es1)) = []),
                data = applyDefaults (fst (repairEvent P (p1, es1))),
                errors = snd (repairEvent P (p1, es1))\<rparr>"
    using validateGameResponse_parsed [OF assms(1,2)] s by simp
  have bad: "rd (fst (repairEvent P (p1, es1))) ''event'' = Null"
    if "rd ?ev ''type'' \<notin> set (map Str validTypes)"
    using that assms(3) ev rd_defined_wr [OF def1]
    by (simp add: repairEvent_def Let_def del: set_map)
  have dice: "rd (fst (repairEvent P (p1, es1))) ''event''
                = repairSeverity (fst (repairDifficulty P (repairStat P (?ev, es1))))"
    if "rd ?ev ''type'' = Str ''stat_check'' \<or> rd ?ev ''type'' = Str ''combat''"
  proof -
    have "rd ?ev ''type'' \<in> set (map Str validTypes)"
      using that by (auto simp: validTypes_def)
    then show ?thesis
      using that assms(3) ev rd_defined_wr [OF def1]
      by (simp add: repairEvent_def Let_def split_beta del: set_map)
  qed
  have shape: "rd (repairSeverity (fst (repairDifficulty P (repairStat P (?ev, es1))))) ''stat''
                 \<in> set (map Str validStats)
     \<and> (rd ?ev ''stat'' \<notin> set (map Str validStats)
          \<longrightarrow> rd (repairSeverity (fst (repairDifficulty P (repairStat P (?ev, es1))))) ''stat''
                = Str ''STR'')
     \<and> rd (repairSeverity (fst (repairDifficulty P (repairStat P (?ev, es1))))) ''severity''
          \<in> {Str ''basic'', Str ''important''}
     \<and> (rd ?ev ''severity'' \<notin> {Str ''basic'', Str ''important''}
          \<longrightarrow> rd (repairSeverity (fst (repairDifficulty P (repairStat P (?ev, es1))))) ''severity''
                = Str ''basic'')
     \<and> (\<forall>d. rd ?ev ''difficulty'' = Num d \<longrightarrow>
            rd (repairSeverity (fst (repairDifficulty P (repairStat P (?ev, es1))))) ''difficulty''
              = Num (if d = 0 then 12 else max 1 (min 20 d)))"
    if t: "rd ?ev ''type'' = Str t" for t
  proof -
    obtain e1 es2 where r1: "repairStat P (?ev, es1) = (e1, es2)"
      by (cases "repairStat P (?ev, es1)")
    obtain e2 es3 where r2: "repairDifficulty P (e1, es2) = (e2, es3)"
      by (cases "repairDifficulty P (e1, es2)")
    have t1: "rd e1 ''type'' = Str t"
      using repairStat_other [of "''type''" P ?ev es1] r1 t by simp
    have t2: "rd e2 ''type'' = Str t"
      using repairDifficulty_other [of "''type''" P e1 es2] r2 t1 by simp
    have st1: "rd e1 ''stat'' \<in> set (map Str validStats)"
      and st2: "rd ?ev ''stat'' \<notin> set (map Str validStats) \<Longrightarrow> rd e1 ''stat'' = Str ''STR''"
      using repairStat_valid [OF t, of P es1] r1 by simp_all
    have st3: "rd e2 ''stat'' = rd e1 ''stat''"
      using repairDifficulty_other [of "''stat''" P e1 es2] r2 by simp
    have sv0: "rd e2 ''severity'' = rd ?ev ''severity''"
      using repairDifficulty_other [of "''severity''" P e1 es2]
        repairStat_other [of "''severity''" P ?ev es1] r1 r2
      by simp
    have d1: "rd e1 ''difficulty'' = rd ?ev ''difficulty''"
      using rd_difficulty_repairStat [of P ?ev es1] r1 by simp
    have d2: "rd e2 ''difficulty'' = Num (if d = 0 then 12 else max 1 (min 20 d))"
      if "rd ?ev ''difficulty'' = Num d" for d
      using repairDifficulty_number [OF t1, of d P es2] that d1 r2 by simp
    show ?thesis
      unfolding r1 r2 fst_conv
      using st1 st2 st3 sv0 d2 repairSeverity_valid [OF t2]
      by (simp del: set_map)
  qed
  show ?thesis
    unfolding v
    apply (intro exI conjI, rule refl)
    subgoal using bad by simp
    subgoal using dice shape by (auto simp del: set_map)
    done
qed

text \<open>
  Claim C4. The claim fails for a difficulty that is not a number: the validator notices
  it, records the error, and then computes
  \<open>Math.min(20, Math.max(1, parsed.event.difficulty || 12))\<close>, where the default 12 only
  replaces a falsy value. A word such as \<open>hard\<close> is truthy and converts to no number, so the
  repaired difficulty is not a number at all, on every platform.
\<close>

theorem difficulty_word_not_clamped:
  assumes "JSON_parse P (stripFences P raw)
             = Some (Obj [(''story'', Str s),
                          (''event'', Obj [(''type'', Str ''stat_check''),
                                           (''stat'', Str ''STR''),
                                           (''difficulty'', Str w),
                                           (''severity'', Str ''basic'')])])"
    and "s \<noteq> []" and "w \<noteq> []" and "ToNumber P (Str w) = None"
  shows "\<exists>v. validateGameResponse P raw = Inr v
           \<and> rd (rd (data v) ''event'') ''type'' = Str ''stat_check''
           \<and> rd (rd (data v) ''event'') ''difficulty'' = NaN
           \<and> errors v = [''Invalid difficulty: '' @ w]"
  using assms
  by (simp add: validateGameResponse_def repairStory_def repairEvent_def repairStat_def
        repairDifficulty_def repairSeverity_def applyDefaults_def defaultField_def
        lookup_def validTypes_def validStats_def toStr_def js_or_def Math_max_def
        Math_min_def number_def)

theorem difficulty_word_not_clamped_witness:
  "JSON_parse demo_platform (stripFences demo_platform doc_hard)
     = Some (Obj [(''story'', Str ''You face the wall.''),
                  (''event'', Obj [(''type'', Str ''stat_check''),
                                   (''stat'', Str ''STR''),
                                   (''difficulty'', Str ''hard''),
                                   (''severity'', Str ''basic'')])])
   \<and> ''You face the wall.'' \<noteq> [] \<and> ''hard'' \<noteq> []
   \<and> ToNumber demo_platform (Str ''hard'') = None
   \<and> (\<exists>v. validateGameResponse demo_platform doc_hard = Inr v
           \<and> rd (rd (data v) ''event'') ''type'' = Str ''stat_check''
           \<and> rd (rd (data v) ''event'') ''difficulty'' = NaN
           \<and> errors v = [''Invalid difficulty: hard''])"
proof -
  have p: "JSON_parse demo_platform (stripFences demo_platform doc_hard)
     = Some (Obj [(''story'', Str ''You face the wall.''),
                  (''event'', Obj [(''type'', Str ''stat_check''),
                                   (''stat'', Str ''STR''),
                                   (''difficulty'', Str ''hard''),
                                   (''severity'', Str ''basic'')])])"
    by (simp add: demo_defs)
  have n: "ToNumber demo_platform (Str ''hard'') = None"
    by (simp add: demo_platform_def)
  show ?thesis
    using p n difficulty_word_not_clamped [OF p _ _ n] by simp
qed

section \<open>The special ability\<close>

text \<open>
  Claim C10. When the player leaves the ability name blank (the field is absent, empty, or
  holds only white space), the stored name is the string \<open>None\<close>. That string is not
  empty, so on every later dice check whose stat is the ability's stat (whatever else has
  changed in the character) the special-ability test is truthy and the bonus of 5 is
  added: the total is the d20 draw plus the stat value plus 5.
\<close>

theorem blank_ability_name_gets_bonus:
  assumes "ability_name form = None \<or> (\<exists>s. ability_name form = Some s \<and> trim P s = [])"
  shows "ab_name (specialAbility (storeCharacter P form c)) = ''None''
       \<and> (\<forall>E event g d.
             specialAbility (character g) = specialAbility (storeCharacter P form c)
             \<and> rd event ''stat'' = Str (ab_stat (specialAbility (storeCharacter P form c)))
             \<and> rd event ''difficulty'' = Num d \<and> diceBtn E
             \<longrightarrow> (\<exists>r. waitForDiceRoll E P event g = Ok (Some r) g
                      \<and> bonus r = statValue P (stats (character g)) (rd event ''stat'') + 5
                      \<and> total r = d20 E + statValue P (stats (character g)) (rd event ''stat'') + 5
                      \<and> passed r = (d \<le> total r)))"
proof -
  have nm: "ab_name (specialAbility (storeCharacter P form c)) = ''None''"
    using assms by (auto simp: storeCharacter_def orElse_def)
  show ?thesis
    using nm
    by (auto simp: waitForDiceRoll_def Dice_roll_def resolveDiceCheck_def useSpecial_def
          js_and_def SPECIAL_ABILITY_BONUS_def Let_def)
qed

theorem blank_ability_name_gets_bonus_witness:
  "(ability_name demo_form = None
      \<or> (\<exists>s. ability_name demo_form = Some s \<and> trim demo_platform s = []))
   \<and> ab_name (specialAbility (storeCharacter demo_platform demo_form demo_character)) = ''None''
   \<and> (\<exists>r. waitForDiceRoll demo_env demo_platform demo_event demo_session
              = Ok (Some r) demo_session
          \<and> bonus r = 3 + 5 \<and> total r = 2 + 3 + 5 \<and> passed r = ((12::rat) \<le> 2 + 3 + 5))"
proof -
  have h: "ability_name demo_form = None
      \<or> (\<exists>s. ability_name demo_form = Some s \<and> trim demo_platform s = [])"
    by (simp add: demo_form_def demo_defs)
  have pre: "specialAbility (character demo_session)
               = specialAbility (storeCharacter demo_platform demo_form demo_character)
      \<and> rd demo_event ''stat''
               = Str (ab_stat (specialAbility (storeCharacter demo_platform demo_form demo_character)))
      \<and> rd demo_event ''difficulty'' = Num 12 \<and> diceBtn demo_env"
    by (simp add: demo_session_def demo_character_def demo_form_def demo_event_def
          demo_env_def storeCharacter_def orElse_def lookup_def demo_defs)
  have v: "statValue demo_platform (stats (character demo_session)) (rd demo_event ''stat'') = 3"
    by (simp add: statValue_def demo_session_def demo_character_def demo_event_def
          lookup_def toStr_def)
  have e: "d20 demo_env = 2" by (simp add: demo_env_def)
  from blank_ability_name_gets_bonus [OF h, of demo_character] pre
  have "\<exists>r. waitForDiceRoll demo_env demo_platform demo_event demo_session
              = Ok (Some r) demo_session
          \<and> bonus r = statValue demo_platform (stats (character demo_session))
                         (rd demo_event ''stat'') + 5
          \<and> total r = d20 demo_env + statValue demo_platform (stats (character demo_session))
                         (rd demo_event ''stat'') + 5
          \<and> passed r = (12 \<le> total r)"
    by blast
  then show ?thesis
    using h blank_ability_name_gets_bonus [OF h, of demo_character] unfolding v e
    by auto
qed

section \<open>Conversation context: proofs\<close>





section \<open>Snapshots: proofs\<close>


lemma length_slice_last: "length (slice_last n xs) \<le> n"
  by (simp add: slice_last_def)

text \<open>The retained window never holds more than the configured number of turns: not
  after a turn is added, not after a load of a snapshot that the engine built.\<close>

lemma addStoryEntry_window:
  "length (recentTurns (addStoryEntry entry g)) \<le> RECENT_TURNS_TO_KEEP"
  using length_slice_last [of RECENT_TURNS_TO_KEEP "recentTurns g @ [entry]"]
  by (simp add: addStoryEntry_def Let_def)

lemma addStoryEntry_history:
  "storyHistory (addStoryEntry entry g) = storyHistory g @ [entry]"
  by (simp add: addStoryEntry_def Let_def)




section \<open>The turn engine: proofs\<close>

lemma andThen_Ok [simp]: "andThen (Ok x g) f = f x g"
  by (simp add: andThen_def)

lemma andThen_Fail [simp]: "andThen (Fail e g) f = Fail e g"
  by (simp add: andThen_def)

lemma andThen_eq_Ok:
  "andThen r f = Ok y g' \<longleftrightarrow> (\<exists>x g1. r = Ok x g1 \<and> f x g1 = Ok y g')"
  by (cases r) simp_all


lemma buildDiceOutcomeMessages_trace [simp]:
  "buildDiceOutcomeMessages P event r h x (g\<lparr>trace := t\<rparr>)
     = buildDiceOutcomeMessages P event r h x g"
  by (simp add: buildDiceOutcomeMessages_def outcomeMsg_def pushSummary_def)








section \<open>What the steps of a turn leave alone\<close>

lemma touches_refl [simp]: "touches g g"
  unfolding touches_def
  by (rule exI [of _ "character g"], rule exI [of _ "items g"], rule exI [of _ "keyNpcs g"],
      rule exI [of _ "[]"]) simp




lemma promptCalls_append: "promptCalls (xs @ ys) = promptCalls xs @ promptCalls ys"
  by (induction xs rule: promptCalls.induct) simp_all


lemma narrate_quiet [simp]:
  "character (narrate v g) = character g"
  "promptCalls (trace (narrate v g)) = promptCalls (trace g)"
  by (simp_all add: narrate_def promptCalls_append)



lemma applyItems_quiet [simp]:
  "character (applyItems resp g) = character g"
  "trace (applyItems resp g) = trace g"
  by (simp_all add: applyItems_def Let_def)

lemma addNPC_frame: "\<exists>ks. session_of (addNPC P n g) = g\<lparr>keyNpcs := ks\<rparr>"
proof -
  have "session_of (addNPC P n g) = g\<lparr>keyNpcs := keyNpcs (session_of (addNPC P n g))\<rparr>"
    by (simp add: addNPC_def split: sum.splits option.splits)
  then show ?thesis ..
qed

lemma updateNPC_frame: "\<exists>ks. session_of (updateNPC P u g) = g\<lparr>keyNpcs := ks\<rparr>"
proof -
  have "session_of (updateNPC P u g) = g\<lparr>keyNpcs := keyNpcs (session_of (updateNPC P u g))\<rparr>"
    by (simp add: updateNPC_def Let_def split: sum.splits option.splits jsval.splits)
  then show ?thesis ..
qed

lemma updateAll_frame: "\<exists>ks. session_of (updateAll P us g) = g\<lparr>keyNpcs := ks\<rparr>"
proof (induction us arbitrary: g)
  case Nil
  have "session_of (updateAll P [] g) = g\<lparr>keyNpcs := keyNpcs g\<rparr>" by simp
  then show ?case ..
next
  case (Cons u us)
  obtain ks where k: "session_of (updateNPC P u g) = g\<lparr>keyNpcs := ks\<rparr>"
    using updateNPC_frame by blast
  show ?case
  proof (cases "updateNPC P u g")
    case (Ok x g1)
    with k have g1: "g1 = g\<lparr>keyNpcs := ks\<rparr>" by simp
    obtain ks' where "session_of (updateAll P us g1) = g1\<lparr>keyNpcs := ks'\<rparr>"
      using Cons.IH by blast
    then have "session_of (updateAll P (u # us) g) = g\<lparr>keyNpcs := ks'\<rparr>"
      using Ok g1 by simp
    then show ?thesis ..
  next
    case (Fail e g1)
    with k have "session_of (updateAll P (u # us) g) = g\<lparr>keyNpcs := ks\<rparr>" by simp
    then show ?thesis ..
  qed
qed

lemma updateNPCs_frame: "\<exists>ks. session_of (updateNPCs P u g) = g\<lparr>keyNpcs := ks\<rparr>"
proof (cases "\<exists>us ps. u = Arr us ps")
  case True
  then show ?thesis using updateAll_frame [of P _ g] by (auto simp: updateNPCs_def)
next
  case False
  then have "updateNPCs P u g = Fail TypeError g"
    by (cases u) (simp_all add: updateNPCs_def)
  then have "session_of (updateNPCs P u g) = g\<lparr>keyNpcs := keyNpcs g\<rparr>" by simp
  then show ?thesis ..
qed




lemma addNPC_quiet [simp]:
  "character (session_of (addNPC P n g)) = character g"
  "trace (session_of (addNPC P n g)) = trace g"
  using addNPC_frame [of P n g] by auto

lemma updateNPCs_quiet [simp]:
  "character (session_of (updateNPCs P u g)) = character g"
  "trace (session_of (updateNPCs P u g)) = trace g"
  using updateNPCs_frame [of P u g] by auto

lemma session_of_andThen:
  "session_of (andThen r f) = (case r of Ok x g \<Rightarrow> session_of (f x g) | Fail e g \<Rightarrow> g)"
  by (cases r) simp_all


lemma storyEffects_quiet:
  "character (session_of (storyEffects P resp g)) = character g"
  "promptCalls (trace (session_of (storyEffects P resp g))) = promptCalls (trace g)"
proof -
  let ?g1 = "if truthy (rd resp ''story'') then narrate (rd resp ''story'') g else g"
  let ?g2 = "applyItems resp ?g1"
  have q2: "character ?g2 = character g" "promptCalls (trace ?g2) = promptCalls (trace g)"
    by simp_all
  let ?a = "if truthy (rd resp ''new_npc'') then addNPC P (rd resp ''new_npc'') ?g2
            else Ok () ?g2"
  have qa: "character (session_of ?a) = character ?g2" "trace (session_of ?a) = trace ?g2"
    by simp_all
  have both: "character (session_of (storyEffects P resp g)) = character g
      \<and> promptCalls (trace (session_of (storyEffects P resp g))) = promptCalls (trace g)"
  proof (cases ?a)
    case (Fail e g3)
    with qa q2 show ?thesis by (simp add: storyEffects_def Let_def)
  next
    case (Ok x g3)
    with qa q2 have "character g3 = character g" "promptCalls (trace g3) = promptCalls (trace g)"
      by simp_all
    moreover have "character (session_of (if truthy (rd resp ''npc_updates'')
                    then updateNPCs P (rd resp ''npc_updates'') g3 else Ok () g3)) = character g3"
      "trace (session_of (if truthy (rd resp ''npc_updates'')
                    then updateNPCs P (rd resp ''npc_updates'') g3 else Ok () g3)) = trace g3"
      by simp_all
    ultimately show ?thesis using Ok by (simp add: storyEffects_def Let_def)
  qed
  then show "character (session_of (storyEffects P resp g)) = character g"
    and "promptCalls (trace (session_of (storyEffects P resp g))) = promptCalls (trace g)"
    by simp_all
qed

lemma session_of_andThen_Ok [simp]:
  "session_of (andThen r (\<lambda>x. Ok (h x))) = session_of r"
  by (cases r) simp_all




lemma session_applyXP_calls [simp]:
  "promptCalls (trace (session_of (session_applyXP x g))) = promptCalls (trace g)"
  by (cases "applyXP x (character g)") (simp_all add: session_applyXP_def promptCalls_append)




lemma narrateOutcome_character:
  "character (session_of (narrateOutcome E P event r h x g)) = character g"
proof (cases "outcomeReply E")
  case (Inl e)
  then show ?thesis by (simp add: narrateOutcome_def split_beta Let_def sendPrompt_def)
next
  case (Inr raw)
  let ?ms = "fst (buildDiceOutcomeMessages P event r h x g)"
  have "character (session_of (storyEffects P (data (validateDiceOutcome P raw))
                                 (sendPrompt ?ms g))) = character g"
    using storyEffects_quiet(1) [of P "data (validateDiceOutcome P raw)" "sendPrompt ?ms g"]
    by (simp add: sendPrompt_def)
  then show ?thesis
    using Inr by (simp add: narrateOutcome_def split_beta Let_def)
qed


lemma applyMechanics_character:
  assumes "rd event ''difficulty'' = Num d" and "applyMechanics event r g = Ok hx g2"
  shows "hx = (if passed r then 0 else calculateHPLoss event d, calculateXP (passed r) d)
       \<and> applyXP (calculateXP (passed r) d)
            (if (if passed r then 0 else calculateHPLoss event d) < 0
             then applyHP (if passed r then 0 else calculateHPLoss event d) (character g)
             else character g) = Some (character g2)"
  using assms
  by (auto simp: applyMechanics_def Let_def andThen_eq_Ok session_applyXP_def
        session_applyHP_def split: option.splits if_splits)

lemma handleDiceEvent_character:
  assumes "diceBtn E" and "rd event ''difficulty'' = Num d"
    and "handleDiceEvent E P event g = Ok v g'"
  shows "applyXP
           (calculateXP (passed (Dice_roll P (character g) (d20 E) (rd event ''stat'') d
                                   (useSpecial (character g) event))) d)
           (if (if passed (Dice_roll P (character g) (d20 E) (rd event ''stat'') d
                             (useSpecial (character g) event))
                then 0 else calculateHPLoss event d) < 0
            then applyHP (calculateHPLoss event d) (character g)
            else character g) = Some (character g')"
proof -
  define r where "r = Dice_roll P (character g) (d20 E) (rd event ''stat'') d
                        (useSpecial (character g) event)"
  have nn: "\<not> nullish event" using assms(2) by (cases event) simp_all
  have w: "waitForDiceRoll E P event g = Ok (Some r) g"
    using assms(1,2) by (simp add: waitForDiceRoll_def r_def)
  from assms(3) nn w obtain hx g2 where m: "applyMechanics event r g = Ok hx g2"
    and rest: "(case hx of (hpLost, xpGained) \<Rightarrow>
              (case narrateOutcome E P event r hpLost xpGained g2 of
                 Ok v g3 \<Rightarrow> Ok v g3
               | Fail e g3 \<Rightarrow>
                   if catchable e then Ok Null (narrate (Str (fallbackStory r)) g3)
                   else Fail e g3)) = Ok v g'"
    by (auto simp: handleDiceEvent_def andThen_eq_Ok)
  obtain h x where hx: "hx = (h, x)" by (cases hx)
  have c2: "applyXP (calculateXP (passed r) d)
            (if (if passed r then 0 else calculateHPLoss event d) < 0
             then applyHP (if passed r then 0 else calculateHPLoss event d) (character g)
             else character g) = Some (character g2)"
    using applyMechanics_character [OF assms(2) m] by simp
  have "character g' = character g2"
    using rest narrateOutcome_character [of E P event r h x g2] unfolding hx
    by (cases "narrateOutcome E P event r h x g2") (auto split: if_splits)
  with c2 show ?thesis unfolding r_def by (auto split: if_splits)
qed





lemma applyDeclared_character:
  assumes "rd resp ''xp_gained'' = Num x" and "rd resp ''hp_change'' = Num h"
    and "applyDeclared resp g = Ok u g'"
  shows "\<exists>c1. (if 0 < x then applyXP x (character g) else Some (character g)) = Some c1
            \<and> character g' = (if h \<noteq> 0 then applyHP h c1 else c1)"
  using assms
  by (auto simp: applyDeclared_def applyDeclaredXP_def applyDeclaredHP_def andThen_eq_Ok
        session_applyXP_def session_applyHP_def split: option.splits if_splits)

lemma manualSave_keeps [simp]:
  "character (manualSave E g) = character g" "trace (manualSave E g) = trace g"
  "storyHistory (manualSave E g) = storyHistory g" "recentTurns (manualSave E g) = recentTurns g"
  by (simp_all add: manualSave_def markSaved_def)

lemma autoSave_keeps [simp]:
  "character (autoSave E g) = character g" "trace (autoSave E g) = trace g"
  "storyHistory (autoSave E g) = storyHistory g" "recentTurns (autoSave E g) = recentTurns g"
  by (simp_all add: autoSave_def markSaved_def)

lemma endGame_keeps [simp]:
  "character (endGame E out g) = character g" "trace (endGame E out g) = trace g"
  "storyHistory (endGame E out g) = storyHistory g" "recentTurns (endGame E out g) = recentTurns g"
  by (simp_all add: endGame_def)

text \<open>Storing the turn: the history grows by the entry, the window takes it in and is
  trimmed, the character and the trace stay.\<close>

lemma finishTurn_fields:
  "character (finishTurn E resp entry g) = character g"
  "trace (finishTurn E resp entry g) = trace g"
  "storyHistory (finishTurn E resp entry g) = storyHistory g @ [entry]"
  "recentTurns (finishTurn E resp entry g) =
     (if RECENT_TURNS_TO_KEEP < length (recentTurns g @ [entry])
      then slice_last RECENT_TURNS_TO_KEEP (recentTurns g @ [entry])
      else recentTurns g @ [entry])"
  by (simp_all add: finishTurn_def Let_def incrementTurn_def addStoryEntry_def)

lemma isNonDiceTurn_iff: "isNonDiceTurn event \<longleftrightarrow> \<not> isDiceEvent event"
  by (auto simp: isNonDiceTurn_def isDiceEvent_def)

lemma andThen_OkE:
  assumes "andThen r f = Ok y g'"
  obtains x g1 where "r = Ok x g1" and "f x g1 = Ok y g'"
  using assms by (cases r) simp_all

text \<open>A turn that completes went through its four stages.\<close>

lemma processAIResponse_completes:
  assumes "storyContainer E" and "processAIResponse E P resp action g = Ok () g'"
  obtains g4 v g5 g6 where
    "storyEffects P resp g = Ok () g4"
    and "(if isDiceEvent (rd resp ''event'')
          then handleDiceEvent E P (rd resp ''event'') g4 else Ok Null g4) = Ok v g5"
    and "(if isNonDiceTurn (rd resp ''event'') then applyDeclared resp g5 else Ok () g5)
           = Ok () g6"
    and "g' = finishTurn E resp (turnEntry E resp action v) g6"
proof -
  have nn: "\<not> nullish resp"
    using assms by (auto simp: processAIResponse_def split: if_splits)
  have main: "andThen (storyEffects P resp g)
          (\<lambda>_ g4.
        andThen (if isDiceEvent (rd resp ''event'')
                 then handleDiceEvent E P (rd resp ''event'') g4 else Ok Null g4)
          (\<lambda>diceOutcome g5.
        andThen (if isNonDiceTurn (rd resp ''event'') then applyDeclared resp g5 else Ok () g5)
          (\<lambda>_ g6.
        Ok () (finishTurn E resp (turnEntry E resp action diceOutcome) g6)))) = Ok () g'"
    using assms nn by (simp add: processAIResponse_def)
  from main obtain u g4 where s: "storyEffects P resp g = Ok u g4"
    and r1: "andThen (if isDiceEvent (rd resp ''event'')
                 then handleDiceEvent E P (rd resp ''event'') g4 else Ok Null g4)
          (\<lambda>diceOutcome g5.
        andThen (if isNonDiceTurn (rd resp ''event'') then applyDeclared resp g5 else Ok () g5)
          (\<lambda>_ g6.
        Ok () (finishTurn E resp (turnEntry E resp action diceOutcome) g6))) = Ok () g'"
    by (rule andThen_OkE)
  from r1 obtain v g5 where d: "(if isDiceEvent (rd resp ''event'')
                 then handleDiceEvent E P (rd resp ''event'') g4 else Ok Null g4) = Ok v g5"
    and r2: "andThen (if isNonDiceTurn (rd resp ''event'') then applyDeclared resp g5
                      else Ok () g5)
          (\<lambda>_ g6. Ok () (finishTurn E resp (turnEntry E resp action v) g6)) = Ok () g'"
    by (rule andThen_OkE)
  from r2 obtain u6 g6 where a: "(if isNonDiceTurn (rd resp ''event'')
                 then applyDeclared resp g5 else Ok () g5) = Ok u6 g6"
    and f: "Ok () (finishTurn E resp (turnEntry E resp action v) g6) = Ok () g'"
    by (rule andThen_OkE)
  from s d a f that [of g4 v g5 g6] show ?thesis by simp
qed



section \<open>The deltas of a turn\<close>

lemma completed_Ok: "completed r \<Longrightarrow> r = Ok () (session_of r)"
  by (cases r) simp_all

text \<open>The two figures of the specification: an important failure at difficulty 12 costs
  6 HP, a success at difficulty 16 earns 21 XP.\<close>

lemma calculateHPLoss_at_12:
  "rd event ''severity'' = Str ''important'' \<Longrightarrow> calculateHPLoss event 12 = - 6"
  by (simp add: calculateHPLoss_def)

lemma calculateXP_at_16: "calculateXP True 16 = 21"
  by (simp add: calculateXP_def)

text \<open>
  Claim C6, as amended. On a turn that completes with a resolved dice check (the event is
  a \<open>stat_check\<close> or a \<open>combat\<close>, the dice button is there, the difficulty is a number
  \<open>d\<close>), the character changes by the engine's formulas alone: an HP loss of
  \<open>-(floor(d/3)+2)\<close> when the check failed and the severity is \<open>important\<close>, applied
  through \<open>applyHP\<close> when it is negative, and no HP loss otherwise; then, through
  \<open>applyXP\<close>, \<open>5+floor(d/2)*2\<close> XP when the check passed and 5 XP when it failed. The
  declared \<open>hp_change\<close> and \<open>xp_gained\<close> of such a turn are not applied. On a turn that
  completes without dice event (no event, or one of another type), the declared
  \<open>xp_gained\<close> is applied first, through \<open>applyXP\<close>, and only when it is positive; then the
  declared \<open>hp_change\<close> is applied through \<open>applyHP\<close>, when it is not zero.
\<close>

theorem deltas_of_a_turn:
  assumes "storyContainer E" and "processAIResponse E P resp action g = Ok () g'"
  shows "(isDiceEvent (rd resp ''event'') \<and> diceBtn E
            \<and> rd (rd resp ''event'') ''difficulty'' = Num d \<longrightarrow>
          (let r = Dice_roll P (character g) (d20 E) (rd (rd resp ''event'') ''stat'') d
                     (useSpecial (character g) (rd resp ''event''));
               hpLoss = (if \<not> passed r \<and> rd (rd resp ''event'') ''severity'' = Str ''important''
                         then - (of_int \<lfloor>d / 3\<rfloor> + 2) else 0);
               xpGain = (if passed r then 5 + of_int \<lfloor>d / 2\<rfloor> * 2 else 5)
           in applyXP xpGain (if hpLoss < 0 then applyHP hpLoss (character g) else character g)
                = Some (character g')))
       \<and> (\<not> isDiceEvent (rd resp ''event'') \<and> rd resp ''xp_gained'' = Num x
            \<and> rd resp ''hp_change'' = Num h \<longrightarrow>
          (\<exists>c1. (if 0 < x then applyXP x (character g) else Some (character g)) = Some c1
              \<and> character g' = (if h \<noteq> 0 then applyHP h c1 else c1)))"
proof -
  from processAIResponse_completes [OF assms] obtain g4 v g5 g6 where
    s: "storyEffects P resp g = Ok () g4"
    and d: "(if isDiceEvent (rd resp ''event'')
          then handleDiceEvent E P (rd resp ''event'') g4 else Ok Null g4) = Ok v g5"
    and a: "(if isNonDiceTurn (rd resp ''event'') then applyDeclared resp g5 else Ok () g5)
           = Ok () g6"
    and f: "g' = finishTurn E resp (turnEntry E resp action v) g6"
    by blast
  have c4: "character g4 = character g" using storyEffects_quiet(1) [of P resp g] s by simp
  have cf: "character g' = character g6" using f by (simp add: finishTurn_fields)
  have dice: "(let r = Dice_roll P (character g) (d20 E) (rd (rd resp ''event'') ''stat'') d
                     (useSpecial (character g) (rd resp ''event''));
               hpLoss = (if \<not> passed r \<and> rd (rd resp ''event'') ''severity'' = Str ''important''
                         then - (of_int \<lfloor>d / 3\<rfloor> + 2) else 0);
               xpGain = (if passed r then 5 + of_int \<lfloor>d / 2\<rfloor> * 2 else 5)
           in applyXP xpGain (if hpLoss < 0 then applyHP hpLoss (character g) else character g)
                = Some (character g'))"
    if ev: "isDiceEvent (rd resp ''event'')" and btn: "diceBtn E"
      and diff: "rd (rd resp ''event'') ''difficulty'' = Num d"
  proof -
    from d ev have hd: "handleDiceEvent E P (rd resp ''event'') g4 = Ok v g5" by simp
    from a ev have g6: "g6 = g5" by (simp add: isNonDiceTurn_iff)
    show ?thesis
      using handleDiceEvent_character [OF btn diff hd] c4 cf g6
      by (auto simp: Let_def calculateXP_def calculateHPLoss_def split: if_splits)
  qed
  have declared: "\<exists>c1. (if 0 < x then applyXP x (character g) else Some (character g)) = Some c1
              \<and> character g' = (if h \<noteq> 0 then applyHP h c1 else c1)"
    if ev: "\<not> isDiceEvent (rd resp ''event'')" and xg: "rd resp ''xp_gained'' = Num x"
      and hc: "rd resp ''hp_change'' = Num h"
  proof -
    from d ev have g5: "g5 = g4" by simp
    from a ev have ad: "applyDeclared resp g5 = Ok () g6" by (simp add: isNonDiceTurn_iff)
    have c5: "character g5 = character g" using g5 c4 by simp
    show ?thesis
      using applyDeclared_character [OF xg hc ad] unfolding c5 cf .
  qed
  from dice declared show ?thesis by blast
qed

theorem deltas_of_a_turn_witness:
  "storyContainer demo_env \<and> diceBtn demo_env
   \<and> completed (processAIResponse demo_env demo_platform demo_response
                   (Str ''I draw my sword.'') demo_session)
   \<and> isDiceEvent (rd demo_response ''event'')
   \<and> rd (rd demo_response ''event'') ''difficulty'' = Num 12
   \<and> rd demo_response ''hp_change'' = Num (- 30) \<and> rd demo_response ''xp_gained'' = Num 50
   \<and> applyXP 5 (applyHP (- 6) (character demo_session))
       = Some (character (session_of (processAIResponse demo_env demo_platform demo_response
                                        (Str ''I draw my sword.'') demo_session)))
   \<and> hp (character (session_of (processAIResponse demo_env demo_platform demo_response
                                    (Str ''I draw my sword.'') demo_session))) = 94
   \<and> xp (character (session_of (processAIResponse demo_env demo_platform demo_response
                                    (Str ''I draw my sword.'') demo_session))) = 95
   \<and> completed (processAIResponse demo_env demo_platform demo_loot
                   (Str ''I open the chest.'') demo_session)
   \<and> \<not> isDiceEvent (rd demo_loot ''event'')
   \<and> rd demo_loot ''xp_gained'' = Num 15 \<and> rd demo_loot ''hp_change'' = Num (- 105)
   \<and> level (character (session_of (processAIResponse demo_env demo_platform demo_loot
                                       (Str ''I open the chest.'') demo_session))) = 2
   \<and> xp (character (session_of (processAIResponse demo_env demo_platform demo_loot
                                    (Str ''I open the chest.'') demo_session))) = 5
   \<and> maxHp (character (session_of (processAIResponse demo_env demo_platform demo_loot
                                       (Str ''I open the chest.'') demo_session))) = 110
   \<and> hp (character (session_of (processAIResponse demo_env demo_platform demo_loot
                                    (Str ''I open the chest.'') demo_session))) = 5"
proof -
  let ?sword = "processAIResponse demo_env demo_platform demo_response
                  (Str ''I draw my sword.'') demo_session"
  let ?chest = "processAIResponse demo_env demo_platform demo_loot
                  (Str ''I open the chest.'') demo_session"
  have sc: "storyContainer demo_env" and btn: "diceBtn demo_env" and die: "d20 demo_env = 2"
    by (simp_all add: demo_env_def)
  have ev: "rd demo_response ''event'' = demo_event"
    by (simp add: demo_response_def lookup_def)
  have dice: "isDiceEvent (rd demo_response ''event'')"
    unfolding ev by (simp add: isDiceEvent_def demo_event_def lookup_def)
  have diff: "rd (rd demo_response ''event'') ''difficulty'' = Num 12"
    unfolding ev by (simp add: demo_event_def lookup_def)
  have sev: "rd (rd demo_response ''event'') ''severity'' = Str ''important''"
    unfolding ev by (simp add: demo_event_def lookup_def)
  have decl: "rd demo_response ''hp_change'' = Num (- 30)"
    "rd demo_response ''xp_gained'' = Num 50"
    by (simp_all add: demo_response_def lookup_def)
  have failed: "\<not> passed (Dice_roll demo_platform (character demo_session) (d20 demo_env)
                    (rd (rd demo_response ''event'') ''stat'') 12
                    (useSpecial (character demo_session) (rd demo_response ''event'')))"
    unfolding ev die
    by (simp add: demo_event_def demo_session_def demo_character_def Dice_roll_def
          resolveDiceCheck_def statValue_def useSpecial_def js_and_def lookup_def toStr_def
          SPECIAL_ABILITY_BONUS_def Let_def)
  have c1: "completed ?sword" by code_simp
  have run1: "?sword = Ok () (session_of ?sword)" using c1 by (rule completed_Ok)
  have sword: "applyXP 5 (applyHP (- 6) (character demo_session))
                 = Some (character (session_of ?sword))"
    using deltas_of_a_turn [OF sc run1, of 12] dice btn diff sev failed
    by (simp add: Let_def)
  have hit: "applyXP 5 (applyHP (- 6) (character demo_session))
               = Some ((character demo_session)\<lparr>hp := 94, xp := 95\<rparr>)"
    by (simp add: applyXP_def applyHP_def levelLoop.simps demo_session_def demo_character_def)
  have "character (session_of ?sword) = (character demo_session)\<lparr>hp := 94, xp := 95\<rparr>"
    using sword unfolding hit by simp
  then have sword_vals: "hp (character (session_of ?sword)) = 94"
    "xp (character (session_of ?sword)) = 95"
    by simp_all
  have nd: "\<not> isDiceEvent (rd demo_loot ''event'')"
    by (simp add: isDiceEvent_def demo_loot_def lookup_def)
  have decl2: "rd demo_loot ''xp_gained'' = Num 15" "rd demo_loot ''hp_change'' = Num (- 105)"
    by (simp_all add: demo_loot_def lookup_def)
  have c2: "completed ?chest" by code_simp
  have run2: "?chest = Ok () (session_of ?chest)" using c2 by (rule completed_Ok)
  have up: "applyXP 15 (character demo_session)
              = Some ((character demo_session)\<lparr>xp := 5, level := 2, xpToNext := 150,
                        maxHp := 110, hp := 110\<rparr>)"
    by (simp add: applyXP_def levelLoop.simps demo_session_def demo_character_def)
  have chest: "character (session_of ?chest)
                 = applyHP (- 105) ((character demo_session)\<lparr>xp := 5, level := 2,
                        xpToNext := 150, maxHp := 110, hp := 110\<rparr>)"
    using deltas_of_a_turn [OF sc run2, of _ 15 "- 105"] nd decl2 up
    by simp
  have chest_vals: "level (character (session_of ?chest)) = 2"
    "xp (character (session_of ?chest)) = 5"
    "maxHp (character (session_of ?chest)) = 110"
    "hp (character (session_of ?chest)) = 5"
    unfolding chest by (simp_all add: applyHP_def)
  show ?thesis
    using sc btn c1 dice diff decl sword sword_vals c2 nd decl2 chest_vals by simp
qed

text \<open>A declared XP that is negative is not applied: the rest by the fire leaves the XP
  at 90, where \<open>applyXP\<close> with the declared amount would have left 80.\<close>

theorem negative_xp_counterexample:
  "storyContainer demo_env
   \<and> completed (processAIResponse demo_env demo_platform demo_rest (Str ''I rest.'')
                  demo_session)
   \<and> \<not> isDiceEvent (rd demo_rest ''event'')
   \<and> rd demo_rest ''xp_gained'' = Num (- 10)
   \<and> xp (character demo_session) = 90
   \<and> map_option xp (applyXP (- 10) (character demo_session)) = Some 80
   \<and> xp (character (session_of (processAIResponse demo_env demo_platform demo_rest
                                    (Str ''I rest.'') demo_session))) = 90"
proof -
  have "storyContainer demo_env" by (simp add: demo_env_def)
  moreover have "completed (processAIResponse demo_env demo_platform demo_rest
                   (Str ''I rest.'') demo_session)" by code_simp
  moreover have "\<not> isDiceEvent (rd demo_rest ''event'')"
    by (simp add: isDiceEvent_def demo_rest_def lookup_def)
  moreover have "rd demo_rest ''xp_gained'' = Num (- 10)"
    by (simp add: demo_rest_def lookup_def)
  moreover have "xp (character demo_session) = 90"
    by (simp add: demo_session_def demo_character_def)
  moreover have "map_option xp (applyXP (- 10) (character demo_session)) = Some 80"
    by (simp add: applyXP_def levelLoop.simps demo_session_def demo_character_def)
  moreover have "xp (character (session_of (processAIResponse demo_env demo_platform demo_rest
                                    (Str ''I rest.'') demo_session))) = 90" by code_simp
  ultimately show ?thesis by simp
qed

section \<open>The opening turn\<close>


lemma turnEntry_fields [simp]:
  "playerAction (turnEntry E resp action v) = action"
  "aiResponse (turnEntry E resp action v) = resp"
  "diceOutcomeRequest (turnEntry E resp action Null) = Null"
  "diceOutcomeResponse (turnEntry E resp action Null) = Null"
  by (simp_all add: turnEntry_def)







end
